theory Spec2Isabelle
  imports Main
begin

section \<open>The IR node model consumed by InstructionUtils.cpp\<close>

text \<open>
  A \<open>SILValue\<close> is a pointer to a node of the IR graph; the model uses a handle
  (a natural number) and the module maps every handle to its node. A null
  \<open>SILValue()\<close> is \<open>None\<close> of an option type where the source can produce it.
  Pointer equality \<open>V2 == V\<close> is equality of handles.
\<close>

type_synonym SILValue = nat
type_synonym SILBasicBlock = nat

text \<open>
  The node kinds that InstructionUtils.cpp names, in one enumeration (the source's
  \<open>ValueKind\<close> and \<open>SILInstructionKind\<close> are two views of the same kind tags).
  \<open>OtherKind\<close> stands for every kind the file never mentions.
\<close>

datatype SILNodeKind =
    UpcastInst | UncheckedRefCastInst | UnconditionalCheckedCastInst
  | UnconditionalCheckedCastValueInst | RefToBridgeObjectInst | BridgeObjectToRefInst
  | UncheckedTrivialBitCastInst | MarkDependenceInst
  | StructElementAddrInst | TupleElementAddrInst | UncheckedTakeEnumDataAddrInst
  | RefElementAddrInst | RefTailAddrInst | TailAddrInst | IndexAddrInst
  | IndexRawPointerInst
  | StructExtractInst | TupleExtractInst | UncheckedEnumDataInst
  | BuiltinInst | BeginBorrowInst | ConvertFunctionInst
  | GlobalAddrInst | AllocBoxInst | AllocStackInst | BeginAccessInst
  | SILFunctionArgument | SILPHIArgument | PointerToAddressInst
  | MarkUninitializedInst | OpenExistentialAddrInst | UncheckedAddrCastInst
  | CopyValueInst | ProjectBoxInst | ProjectBlockStorageInst
  | OpenExistentialBoxInst | ProjectExistentialBoxInst | ProjectValueBufferInst
  | InitEnumDataAddrInst | InitExistentialAddrInst | AllocExistentialBoxInst
  | AllocValueBufferInst | SILUndef
  | PartialApplyInst | CopyBlockInst | InitBlockStorageHeaderInst | EnumInst
  | EndBorrowInst | LoadBorrowInst | CopyUnownedValueInst | DestroyValueInst
  | LoadInst | StoreInst
  | OtherKind

type_synonym ValueKind = SILNodeKind
type_synonym SILInstructionKind = SILNodeKind


text \<open>
  Modelled from the spec: the type system (\<open>SILType\<close>, \<open>SILFunctionType\<close>) is declared
  outside InstructionUtils.cpp. The model keeps of a type what the code asks of it:
  whether it is a function type and with which representation, whether it is
  \<open>Optional\<close> of some object type (\<open>getOptionalObjectType\<close>), whether it is a class or
  class metatype (\<open>isClassOrClassMetatype\<close>), and whether it is
  \<open>Builtin.UnsafeValueBuffer\<close>.
\<close>

datatype SILFunctionTypeRepresentation =
  Thick | Block | Thin | CFunctionPointer | Method | ObjCMethod | WitnessMethod | Closure

datatype SILType =
    SILFunctionType SILFunctionTypeRepresentation
  | OptionalType SILType
  | ClassType
  | ClassMetatypeType
  | BuiltinUnsafeValueBufferType
  | OtherType

fun getOptionalObjectType :: "SILType \<Rightarrow> SILType option" where
  "getOptionalObjectType (OptionalType T) = Some T"
| "getOptionalObjectType _ = None"

fun getAs_SILFunctionType :: "SILType \<Rightarrow> SILFunctionTypeRepresentation option" where
  "getAs_SILFunctionType (SILFunctionType R) = Some R"
| "getAs_SILFunctionType _ = None"


datatype IsThunk_t = IsNotThunk | IsThunk | IsReabstractionThunk

datatype IntrinsicID = not_intrinsic | expect | other_intrinsic

text \<open>
  One node of the graph. \<open>operands\<close> is the ordered operand list. \<open>parent\<close> and
  \<open>index\<close> are read for block and function arguments only. \<open>decl\<close> is
  \<open>getDecl()\<close> of an alloc_stack or alloc_box and \<open>referencedGlobal\<close> is
  \<open>getReferencedGlobal()\<close> of a global_addr: \<open>None\<close> is the null pointer and
  \<open>Some b\<close> a declaration whose \<open>isLet()\<close> is \<open>b\<close>. \<open>referencedFunction\<close> is
  \<open>getReferencedFunction()\<close> of a partial_apply, given by the callee's
  \<open>isThunk()\<close>. \<open>intrinsicID\<close> is \<open>getIntrinsicInfo().ID\<close> of a builtin.
\<close>

record SILNode =
  kind :: SILNodeKind
  operands :: "SILValue list"
  ty :: SILType
  isAddress :: bool
  parent :: SILBasicBlock
  index :: nat
  decl :: "bool option"
  referencedGlobal :: "bool option"
  referencedFunction :: "IsThunk_t option"
  intrinsicID :: IntrinsicID

text \<open>
  Terminators: \<open>br dest(args)\<close>, \<open>cond_br c, trueBB(trueArgs), falseBB(falseArgs)\<close>,
  \<open>switch_enum\<close>, and every other terminator.
\<close>

datatype TermInst =
    BranchInst SILBasicBlock "SILValue list"
  | CondBranchInst SILValue SILBasicBlock "SILValue list" SILBasicBlock "SILValue list"
  | SwitchEnumInst SILValue
  | OtherTermInst

text \<open>A \<open>store src to dest\<close> instruction, as a user of a value.\<close>

record StoreUser =
  getSrc :: SILValue
  getDest :: SILValue

text \<open>
  The module: the node behind every handle, the predecessor list and the terminator of
  every block. The remaining fields are queries whose code is not part of
  InstructionUtils.cpp and are taken as parameters:
  \<open>Projection::isAddressProjection\<close> and \<open>Projection::isObjectProjection\<close>
  (swift/SIL/Projection.h), \<open>SILType::isReferenceCounted\<close>, and
  \<open>getSingleUserOfType<T>\<close> for the two instruction classes it is called with.
\<close>

record SILModule =
  nodes :: "SILValue \<Rightarrow> SILNode"
  preds :: "SILBasicBlock \<Rightarrow> SILBasicBlock list"
  terminator :: "SILBasicBlock \<Rightarrow> TermInst"
  isAddressProjection :: "SILValue \<Rightarrow> bool"
  isObjectProjection :: "SILValue \<Rightarrow> bool"
  isReferenceCounted :: "SILType \<Rightarrow> bool"
  getSingleUserOfType_ProjectBlockStorageInst :: "SILValue \<Rightarrow> SILValue option"
  getSingleUserOfType_StoreInst :: "SILValue \<Rightarrow> StoreUser option"

text \<open>
  Fatal outcomes: a failed \<open>assert\<close> (also the assertion inside \<open>cast<T>\<close> and
  inside an operand access out of range), \<open>llvm_unreachable\<close>, and a call through a
  null pointer.
\<close>

datatype error = AssertionFailure | Unreachable | NullDereference

text \<open>
  A call either does not return (\<open>None\<close>: the loop runs forever), or stops with a
  fatal error (\<open>Some (Inl e)\<close>), or returns a result (\<open>Some (Inr x)\<close>).
\<close>

definition getKind :: "SILModule \<Rightarrow> SILValue \<Rightarrow> SILNodeKind" where
  "getKind M V = kind (nodes M V)"

definition getType :: "SILModule \<Rightarrow> SILValue \<Rightarrow> SILType" where
  "getType M V = ty (nodes M V)"

text \<open>\<open>getOperand(i)\<close>; out of range the source fails an assertion.\<close>

definition getArg :: "SILValue list \<Rightarrow> nat \<Rightarrow> error + SILValue" where
  "getArg args i = (if i < length args then Inr (args ! i) else Inl AssertionFailure)"

definition getOperand :: "SILModule \<Rightarrow> SILValue \<Rightarrow> nat \<Rightarrow> error + SILValue" where
  "getOperand M V i = getArg (operands (nodes M V)) i"

definition isa_SILArgument :: "SILModule \<Rightarrow> SILValue \<Rightarrow> bool" where
  "isa_SILArgument M V \<longleftrightarrow> getKind M V = SILPHIArgument \<or> getKind M V = SILFunctionArgument"

text \<open>
  Modelled from the spec: \<open>SILBasicBlock::getSinglePredecessorBlock\<close> is declared in
  swift/SIL/SILBasicBlock.h, not in InstructionUtils.cpp. It gives the
  predecessor when the block has exactly one, and null otherwise.
\<close>

fun getSinglePredecessorBlock :: "SILModule \<Rightarrow> SILBasicBlock \<Rightarrow> SILBasicBlock option" where
  "getSinglePredecessorBlock M BB = (case preds M BB of [P] \<Rightarrow> Some P | _ \<Rightarrow> None)"

text \<open>
  Modelled from the spec: \<open>CondBranchInst::getArgForDestBB\<close> is defined outside
  InstructionUtils.cpp. A conditional branch supplies an operand list to each of its
  two targets; the list is selected by the identity of the destination block. The caller
  tests the result for null, so the result is an option.
\<close>

fun getArgForDestBB ::
  "SILBasicBlock \<Rightarrow> SILValue list \<Rightarrow> SILBasicBlock \<Rightarrow> SILValue list \<Rightarrow>
   SILBasicBlock \<Rightarrow> nat \<Rightarrow> SILValue option" where
  "getArgForDestBB TrueBB trueArgs FalseBB falseArgs DestBB i =
     (if DestBB = TrueBB then (if i < length trueArgs then Some (trueArgs ! i) else None)
      else if DestBB = FalseBB then (if i < length falseArgs then Some (falseArgs ! i) else None)
      else None)"

section \<open>Value canonicalizer\<close>

partial_function (option) stripSinglePredecessorArgs ::
  "SILModule \<Rightarrow> SILValue \<Rightarrow> (error + SILValue) option" where
  "stripSinglePredecessorArgs M V =
     (if \<not> isa_SILArgument M V then Some (Inr V)
      else
        (case getSinglePredecessorBlock M (parent (nodes M V)) of
           None \<Rightarrow> Some (Inr V)
         | Some Pred \<Rightarrow>
             (case terminator M Pred of
                BranchInst D args \<Rightarrow>
                  (case getArg args (index (nodes M V)) of
                     Inl e \<Rightarrow> Some (Inl e)
                   | Inr A \<Rightarrow> stripSinglePredecessorArgs M A)
              | CondBranchInst C TrueBB trueArgs FalseBB falseArgs \<Rightarrow>
                  (case getArgForDestBB TrueBB trueArgs FalseBB falseArgs
                          (parent (nodes M V)) (index (nodes M V)) of
                     Some Arg \<Rightarrow> stripSinglePredecessorArgs M Arg
                   | None \<Rightarrow> Some (Inr V))
              | SwitchEnumInst E \<Rightarrow> Some (Inr V)
              | OtherTermInst \<Rightarrow> Some (Inr V))))"

fun isRCIdentityPreservingCast :: "ValueKind \<Rightarrow> bool" where
  "isRCIdentityPreservingCast UpcastInst = True"
| "isRCIdentityPreservingCast UncheckedRefCastInst = True"
| "isRCIdentityPreservingCast UnconditionalCheckedCastInst = True"
| "isRCIdentityPreservingCast UnconditionalCheckedCastValueInst = True"
| "isRCIdentityPreservingCast RefToBridgeObjectInst = True"
| "isRCIdentityPreservingCast BridgeObjectToRefInst = True"
| "isRCIdentityPreservingCast _ = False"

partial_function (option) stripCastsWithoutMarkDependence ::
  "SILModule \<Rightarrow> SILValue \<Rightarrow> (error + SILValue) option" where
  "stripCastsWithoutMarkDependence M V0 =
     (case stripSinglePredecessorArgs M V0 of
        None \<Rightarrow> None
      | Some (Inl e) \<Rightarrow> Some (Inl e)
      | Some (Inr V) \<Rightarrow>
          if isRCIdentityPreservingCast (getKind M V)
             \<or> getKind M V = UncheckedTrivialBitCastInst
          then (case getOperand M V 0 of
                  Inl e \<Rightarrow> Some (Inl e)
                | Inr W \<Rightarrow> stripCastsWithoutMarkDependence M W)
          else Some (Inr V))"

partial_function (option) stripCasts ::
  "SILModule \<Rightarrow> SILValue \<Rightarrow> (error + SILValue) option" where
  "stripCasts M V0 =
     (case stripSinglePredecessorArgs M V0 of
        None \<Rightarrow> None
      | Some (Inl e) \<Rightarrow> Some (Inl e)
      | Some (Inr V) \<Rightarrow>
          if isRCIdentityPreservingCast (getKind M V)
             \<or> getKind M V = UncheckedTrivialBitCastInst
             \<or> getKind M V = MarkDependenceInst
          then (case getOperand M V 0 of
                  Inl e \<Rightarrow> Some (Inl e)
                | Inr W \<Rightarrow> stripCasts M W)
          else Some (Inr V))"



partial_function (option) stripClassCasts ::
  "SILModule \<Rightarrow> SILValue \<Rightarrow> (error + SILValue) option" where
  "stripClassCasts M V =
     (if getKind M V = UpcastInst
      then (case getOperand M V 0 of
              Inl e \<Rightarrow> Some (Inl e)
            | Inr W \<Rightarrow> stripClassCasts M W)
      else if getKind M V = UnconditionalCheckedCastInst
      then (case getOperand M V 0 of
              Inl e \<Rightarrow> Some (Inl e)
            | Inr W \<Rightarrow> stripClassCasts M W)
      else Some (Inr V))"


partial_function (option) stripUnaryAddressProjections ::
  "SILModule \<Rightarrow> SILValue \<Rightarrow> (error + SILValue) option" where
  "stripUnaryAddressProjections M V0 =
     (case stripSinglePredecessorArgs M V0 of
        None \<Rightarrow> None
      | Some (Inl e) \<Rightarrow> Some (Inl e)
      | Some (Inr V) \<Rightarrow>
          if \<not> isAddressProjection M V then Some (Inr V)
          else if length (operands (nodes M V)) > 1 then Some (Inr V)
          else (case getOperand M V 0 of
                  Inl e \<Rightarrow> Some (Inl e)
                | Inr W \<Rightarrow> stripUnaryAddressProjections M W))"

partial_function (option) stripValueProjections ::
  "SILModule \<Rightarrow> SILValue \<Rightarrow> (error + SILValue) option" where
  "stripValueProjections M V0 =
     (case stripSinglePredecessorArgs M V0 of
        None \<Rightarrow> None
      | Some (Inl e) \<Rightarrow> Some (Inl e)
      | Some (Inr V) \<Rightarrow>
          if \<not> isObjectProjection M V then Some (Inr V)
          else (case getOperand M V 0 of
                  Inl e \<Rightarrow> Some (Inl e)
                | Inr W \<Rightarrow> stripValueProjections M W))"





partial_function (option) stripConvertFunctions ::
  "SILModule \<Rightarrow> SILValue \<Rightarrow> (error + SILValue) option" where
  "stripConvertFunctions M V =
     (if getKind M V \<noteq> ConvertFunctionInst then Some (Inr V)
      else (case getOperand M V 0 of
              Inl e \<Rightarrow> Some (Inl e)
            | Inr W \<Rightarrow> stripConvertFunctions M W))"




section \<open>Formal access root resolver\<close>

definition isLetAccess :: "SILModule \<Rightarrow> SILValue \<Rightarrow> bool" where
  "isLetAccess M address =
     (if getKind M address = AllocStackInst then
        (case decl (nodes M address) of None \<Rightarrow> False | Some isLet \<Rightarrow> isLet)
      else if getKind M address = AllocBoxInst then
        (case decl (nodes M address) of None \<Rightarrow> False | Some isLet \<Rightarrow> isLet)
      else if getKind M address = GlobalAddrInst then
        (case referencedGlobal (nodes M address) of None \<Rightarrow> False | Some isLet \<Rightarrow> isLet)
      else False)"

text \<open>The groups of case labels of the switch in \<open>findAccessedAddressBase\<close>.\<close>

fun isBaseCase :: "ValueKind \<Rightarrow> bool" where
  "isBaseCase GlobalAddrInst = True"
| "isBaseCase RefElementAddrInst = True"
| "isBaseCase AllocBoxInst = True"
| "isBaseCase AllocStackInst = True"
| "isBaseCase BeginAccessInst = True"
| "isBaseCase SILFunctionArgument = True"
| "isBaseCase PointerToAddressInst = True"
| "isBaseCase _ = False"

fun isInductiveCase :: "ValueKind \<Rightarrow> bool" where
  "isInductiveCase MarkUninitializedInst = True"
| "isInductiveCase OpenExistentialAddrInst = True"
| "isInductiveCase UncheckedAddrCastInst = True"
| "isInductiveCase CopyValueInst = True"
| "isInductiveCase MarkDependenceInst = True"
| "isInductiveCase ProjectBoxInst = True"
| "isInductiveCase ProjectBlockStorageInst = True"
| "isInductiveCase BeginBorrowInst = True"
| "isInductiveCase _ = False"

fun isSubobjectProjection :: "ValueKind \<Rightarrow> bool" where
  "isSubobjectProjection StructElementAddrInst = True"
| "isSubobjectProjection TupleElementAddrInst = True"
| "isSubobjectProjection UncheckedTakeEnumDataAddrInst = True"
| "isSubobjectProjection RefTailAddrInst = True"
| "isSubobjectProjection TailAddrInst = True"
| "isSubobjectProjection IndexAddrInst = True"
| "isSubobjectProjection _ = False"

fun isValueToAddressConversion :: "ValueKind \<Rightarrow> bool" where
  "isValueToAddressConversion OpenExistentialBoxInst = True"
| "isValueToAddressConversion ProjectExistentialBoxInst = True"
| "isValueToAddressConversion ProjectValueBufferInst = True"
| "isValueToAddressConversion _ = False"

fun isLocalInitialization :: "ValueKind \<Rightarrow> bool" where
  "isLocalInitialization InitEnumDataAddrInst = True"
| "isLocalInitialization InitExistentialAddrInst = True"
| "isLocalInitialization AllocExistentialBoxInst = True"
| "isLocalInitialization AllocValueBufferInst = True"
| "isLocalInitialization SILUndef = True"
| "isLocalInitialization _ = False"

fun isa_SwitchEnumInst :: "TermInst \<Rightarrow> bool" where
  "isa_SwitchEnumInst (SwitchEnumInst E) = True"
| "isa_SwitchEnumInst _ = False"

text \<open>
  The result is \<open>Inr (Some base)\<close>, or \<open>Inr None\<close> for the null \<open>SILValue()\<close>, or
  \<open>Inl\<close> where the source reaches \<open>llvm_unreachable\<close> or fails its assertion.
\<close>

partial_function (option) findAccessedAddressBase ::
  "SILModule \<Rightarrow> SILValue \<Rightarrow> (error + SILValue option) option" where
  "findAccessedAddressBase M address =
     (if isBaseCase (getKind M address) then Some (Inr (Some address))
      else if getKind M address = SILPHIArgument then
        (if isAddress (nodes M address) then Some (Inl AssertionFailure)
         else (case getSinglePredecessorBlock M (parent (nodes M address)) of
                 None \<Rightarrow> Some (Inl Unreachable)
               | Some Pred \<Rightarrow>
                   if \<not> isa_SwitchEnumInst (terminator M Pred) then Some (Inl Unreachable)
                   else Some (Inr (Some address))))
      else if isInductiveCase (getKind M address) then
        (case getOperand M address 0 of
           Inl e \<Rightarrow> Some (Inl e)
         | Inr A \<Rightarrow> findAccessedAddressBase M A)
      else if isSubobjectProjection (getKind M address) then
        (case getOperand M address 0 of
           Inl e \<Rightarrow> Some (Inl e)
         | Inr A \<Rightarrow> findAccessedAddressBase M A)
      else if isValueToAddressConversion (getKind M address) then Some (Inr None)
      else if isLocalInitialization (getKind M address) then Some (Inr None)
      else Some (Inl Unreachable))"

definition isPossibleFormalAccessBase :: "SILModule \<Rightarrow> SILValue \<Rightarrow> bool" where
  "isPossibleFormalAccessBase M baseAddress =
     (if getKind M baseAddress = SILFunctionArgument then False
      else if getKind M baseAddress = PointerToAddressInst then False
      else if isLetAccess M baseAddress then False
      else if getType M baseAddress = BuiltinUnsafeValueBufferType then False
      else True)"

section \<open>Closure origin resolver\<close>

text \<open>
  The applied arguments of a partial_apply: its operands after the callee, which is
  operand 0.
\<close>

definition getArguments :: "SILModule \<Rightarrow> SILValue \<Rightarrow> SILValue list" where
  "getArguments M PAI = drop 1 (operands (nodes M PAI))"

definition isPartialApplyOfReabstractionThunk :: "SILModule \<Rightarrow> SILValue \<Rightarrow> SILValue option" where
  "isPartialApplyOfReabstractionThunk M PAI =
     (case getArguments M PAI of
        [Arg] \<Rightarrow>
          (case referencedFunction (nodes M PAI) of
             None \<Rightarrow> None
           | Some Fun_isThunk \<Rightarrow>
               if Fun_isThunk \<noteq> IsReabstractionThunk then None
               else if getAs_SILFunctionType (getType M Arg) = None
                       \<or> \<not> isReferenceCounted M (getType M Arg) then None
               else Some Arg)
      | _ \<Rightarrow> None)"

text \<open>The loop of \<open>findClosureStoredIntoBlock\<close> that looks through block copies.\<close>

partial_function (option) lookThroughBlockCopies ::
  "SILModule \<Rightarrow> SILValue \<Rightarrow> (error + SILValue) option" where
  "lookThroughBlockCopies M V =
     (if getKind M V = CopyBlockInst
      then (case getOperand M V 0 of
              Inl e \<Rightarrow> Some (Inl e)
            | Inr W \<Rightarrow> lookThroughBlockCopies M W)
      else Some (Inr V))"

text \<open>
  \<open>getBlockStorage()\<close> of an init_block_storage_header is its operand 0. The two
  \<open>assert\<close>s on the projection and on the store are fatal when they fail.
\<close>

definition findClosureStoredIntoBlock ::
  "SILModule \<Rightarrow> SILValue \<Rightarrow> (error + SILValue option) option" where
  "findClosureStoredIntoBlock M V0 =
     (case getAs_SILFunctionType (getType M V0) of
        None \<Rightarrow> Some (Inl AssertionFailure)
      | Some R \<Rightarrow>
          if R \<noteq> Block then Some (Inl AssertionFailure)
          else
            (case lookThroughBlockCopies M V0 of
               None \<Rightarrow> None
             | Some (Inl e) \<Rightarrow> Some (Inl e)
             | Some (Inr V) \<Rightarrow>
                 if getKind M V \<noteq> InitBlockStorageHeaderInst then Some (Inr None)
                 else
                   (case getOperand M V 0 of
                      Inl e \<Rightarrow> Some (Inl e)
                    | Inr BlockStorage \<Rightarrow>
                        (case getSingleUserOfType_ProjectBlockStorageInst M BlockStorage of
                           None \<Rightarrow> Some (Inl AssertionFailure)
                         | Some PBSI \<Rightarrow>
                             (case getSingleUserOfType_StoreInst M PBSI of
                                None \<Rightarrow> Some (Inl AssertionFailure)
                              | Some SI \<Rightarrow> Some (Inr (Some (getSrc SI))))))))"

text \<open>
  \<open>FindClosureResult\<close> is the pair of the partial_apply (or null) and the flag that
  the closure is captured by a reabstraction thunk.
\<close>

type_synonym FindClosureResult = "SILValue option \<times> bool"

partial_function (option) findClosureForAppliedArg ::
  "SILModule \<Rightarrow> SILValue \<Rightarrow> (error + FindClosureResult) option" where
  "findClosureForAppliedArg M V0 =
     (case (if getKind M V0 = BeginBorrowInst then getOperand M V0 0 else Inr V0) of
        Inl e \<Rightarrow> Some (Inl e)
      | Inr V1 \<Rightarrow>
     (case (if getOptionalObjectType (getType M V1) \<noteq> None
            then (if getKind M V1 \<noteq> EnumInst then Inl AssertionFailure
                  else getOperand M V1 0)
            else Inr V1) of
        Inl e \<Rightarrow> Some (Inl e)
      | Inr V2 \<Rightarrow>
     (case getAs_SILFunctionType (getType M V2) of
        None \<Rightarrow> Some (Inl NullDereference)
      | Some R \<Rightarrow>
     (case (if R = Block then findClosureStoredIntoBlock M V2 else Some (Inr (Some V2))) of
        None \<Rightarrow> None
      | Some (Inl e) \<Rightarrow> Some (Inl e)
      | Some (Inr None) \<Rightarrow> Some (Inr (None, False))
      | Some (Inr (Some V3)) \<Rightarrow>
     (case stripConvertFunctions M V3 of
        None \<Rightarrow> None
      | Some (Inl e) \<Rightarrow> Some (Inl e)
      | Some (Inr PAI) \<Rightarrow>
          if getKind M PAI \<noteq> PartialApplyInst then Some (Inr (None, False))
          else
            (case isPartialApplyOfReabstractionThunk M PAI of
               Some thunkArg \<Rightarrow>
                 Option.bind (findClosureForAppliedArg M thunkArg)
                   (\<lambda>r. case r of
                           Inl e \<Rightarrow> Some (Inl e)
                         | Inr result \<Rightarrow> Some (Inr (fst result, True)))
             | None \<Rightarrow> Some (Inr (Some PAI, False))))))))"

section \<open>Ownership-dialect consistency evaluator\<close>

datatype OwnershipQualifiedKind = NotApplicable | Qualified | Unqualified

datatype LoadOwnershipQualifier = Load_Unqualified | Load_Take | Load_Copy | Load_Trivial

datatype StoreOwnershipQualifier = Store_Unqualified | Store_Init | Store_Assign | Store_Trivial

text \<open>
  An instruction as the evaluator sees it: its kind, the function it belongs to, and the
  ownership qualifier that a load or a store carries.
\<close>

record SILInstruction =
  instKind :: SILInstructionKind
  getFunction :: nat
  loadOwnershipQualifier :: LoadOwnershipQualifier
  storeOwnershipQualifier :: StoreOwnershipQualifier

definition visit :: "SILInstruction \<Rightarrow> OwnershipQualifiedKind" where
  "visit I =
     (if instKind I = EndBorrowInst then Qualified
      else if instKind I = LoadBorrowInst then Qualified
      else if instKind I = CopyValueInst then Qualified
      else if instKind I = CopyUnownedValueInst then Qualified
      else if instKind I = DestroyValueInst then Qualified
      else if instKind I = LoadInst then
        (if loadOwnershipQualifier I = Load_Unqualified then Unqualified else Qualified)
      else if instKind I = StoreInst then
        (if storeOwnershipQualifier I = Store_Unqualified then Unqualified else Qualified)
      else NotApplicable)"

text \<open>
  The evaluator's state: the function \<open>F\<close> it evaluates, that function's
  \<open>hasQualifiedOwnership()\<close> flag (which \<open>setUnqualifiedOwnership()\<close> clears), and
  the evaluator's own field \<open>HasOwnershipQualifiedInstruction\<close>.
\<close>

record FunctionOwnershipEvaluator =
  F :: nat
  hasQualifiedOwnership :: bool
  HasOwnershipQualifiedInstruction :: bool

definition evaluate ::
  "FunctionOwnershipEvaluator \<Rightarrow> SILInstruction \<Rightarrow> error + (bool \<times> FunctionOwnershipEvaluator)" where
  "evaluate E I =
     (if getFunction I \<noteq> F E then Inl AssertionFailure
      else
        (case visit I of
           Unqualified \<Rightarrow>
             if \<not> hasQualifiedOwnership E then Inr (True, E)
             else if HasOwnershipQualifiedInstruction E then Inr (False, E)
             else Inr (True, E\<lparr>hasQualifiedOwnership := False\<rparr>)
         | Qualified \<Rightarrow>
             if \<not> hasQualifiedOwnership E then Inr (False, E)
             else Inr (True, E\<lparr>HasOwnershipQualifiedInstruction := True\<rparr>)
         | NotApplicable \<Rightarrow> Inr (True, E)))"

text \<open>
  Modelled from the spec: the evaluator's constructor is in the header, not in
  InstructionUtils.cpp. A function starts with qualified ownership and the evaluator has
  seen no qualified instruction yet.
\<close>

definition initialEvaluator :: "nat \<Rightarrow> FunctionOwnershipEvaluator" where
  "initialEvaluator f =
     \<lparr>F = f, hasQualifiedOwnership = True, HasOwnershipQualifiedInstruction = False\<rparr>"

text \<open>
  Threading the evaluator through the instructions of a function: the list of answers
  and the final state. A fatal error stops the run.
\<close>

fun evaluateAll ::
  "FunctionOwnershipEvaluator \<Rightarrow> SILInstruction list \<Rightarrow>
   error + (bool list \<times> FunctionOwnershipEvaluator)" where
  "evaluateAll E [] = Inr ([], E)"
| "evaluateAll E (I # Is) =
     (case evaluate E I of
        Inl e \<Rightarrow> Inl e
      | Inr (accepted, E') \<Rightarrow>
          (case evaluateAll E' Is of
             Inl e \<Rightarrow> Inl e
           | Inr (rest, E'') \<Rightarrow> Inr (accepted # rest, E'')))"

text \<open>
  The state machine as the specification words it: three states and a transition
  function on the instruction's dialect.
\<close>

datatype DialectState = StateUnqualified | QualifiedNoEvidence | QualifiedWithEvidence

fun spec_transition :: "DialectState \<Rightarrow> OwnershipQualifiedKind \<Rightarrow> bool \<times> DialectState" where
  "spec_transition s NotApplicable = (True, s)"
| "spec_transition StateUnqualified Unqualified = (True, StateUnqualified)"
| "spec_transition QualifiedWithEvidence Unqualified = (False, QualifiedWithEvidence)"
| "spec_transition QualifiedNoEvidence Unqualified = (True, StateUnqualified)"
| "spec_transition StateUnqualified Qualified = (False, StateUnqualified)"
| "spec_transition QualifiedNoEvidence Qualified = (True, QualifiedWithEvidence)"
| "spec_transition QualifiedWithEvidence Qualified = (True, QualifiedWithEvidence)"

definition dialectState :: "FunctionOwnershipEvaluator \<Rightarrow> DialectState" where
  "dialectState E =
     (if \<not> hasQualifiedOwnership E then StateUnqualified
      else if HasOwnershipQualifiedInstruction E then QualifiedWithEvidence
      else QualifiedNoEvidence)"

section \<open>The loops with a bound on their inductive steps\<close>

















section \<open>The value graph\<close>

text \<open>
  The value that a block argument stands for when its block has a single predecessor
  ending in \<open>br\<close> or \<open>cond_br\<close>: the operand passed on that edge.
\<close>

definition incomingValue :: "SILModule \<Rightarrow> SILValue \<Rightarrow> SILValue option" where
  "incomingValue M V =
     (if \<not> isa_SILArgument M V then None
      else
        (case getSinglePredecessorBlock M (parent (nodes M V)) of
           None \<Rightarrow> None
         | Some Pred \<Rightarrow>
             (case terminator M Pred of
                BranchInst D args \<Rightarrow>
                  (if index (nodes M V) < length args then Some (args ! index (nodes M V))
                   else None)
              | CondBranchInst C TrueBB trueArgs FalseBB falseArgs \<Rightarrow>
                  getArgForDestBB TrueBB trueArgs FalseBB falseArgs
                    (parent (nodes M V)) (index (nodes M V))
              | SwitchEnumInst E \<Rightarrow> None
              | OtherTermInst \<Rightarrow> None)))"

text \<open>
  The edges of the value graph, from a value to each value it is computed from: the
  operands of an instruction, and the incoming value of a block argument. The pair
  \<open>(W, V)\<close> says that \<open>V\<close> depends on \<open>W\<close>.
\<close>

definition valueEdges :: "SILModule \<Rightarrow> (SILValue \<times> SILValue) set" where
  "valueEdges M = {(W, V). W \<in> set (operands (nodes M V)) \<or> incomingValue M V = Some W}"




text \<open>
  A chain of \<open>n\<close> address instructions over \<open>base\<close>: every link has the previous
  address as its operand 0 and is a subobject projection or indexing instruction
  (struct_element_addr, tuple_element_addr, unchecked_take_enum_data_addr, index_addr,
  ref_tail_addr, tail_addr) or one of the value-preserving wrappers
  (mark_uninitialized, open_existential_addr, unchecked_addr_cast, copy_value,
  mark_dependence, project_box, project_block_storage, begin_borrow).
\<close>

inductive projectionChain :: "SILModule \<Rightarrow> SILValue \<Rightarrow> nat \<Rightarrow> SILValue \<Rightarrow> bool"
  for M :: SILModule and base :: SILValue where
  chain_base: "projectionChain M base 0 base"
| chain_step: "projectionChain M base n A \<Longrightarrow>
     getKind M P = StructElementAddrInst \<or> getKind M P = TupleElementAddrInst
       \<or> getKind M P = UncheckedTakeEnumDataAddrInst \<or> getKind M P = IndexAddrInst
       \<or> getKind M P = RefTailAddrInst \<or> getKind M P = TailAddrInst
       \<or> getKind M P = MarkUninitializedInst \<or> getKind M P = OpenExistentialAddrInst
       \<or> getKind M P = UncheckedAddrCastInst \<or> getKind M P = CopyValueInst
       \<or> getKind M P = MarkDependenceInst \<or> getKind M P = ProjectBoxInst
       \<or> getKind M P = ProjectBlockStorageInst \<or> getKind M P = BeginBorrowInst \<Longrightarrow>
     getOperand M P 0 = Inr A \<Longrightarrow> projectionChain M base (Suc n) P"

text \<open>
  \<open>V\<close> is \<open>W\<close> behind \<open>n\<close> block copies: \<open>n\<close> nested copy_block instructions over
  \<open>W\<close>, which is not a copy_block itself.
\<close>

inductive blockCopyChain :: "SILModule \<Rightarrow> SILValue \<Rightarrow> nat \<Rightarrow> SILValue \<Rightarrow> bool"
  for M :: SILModule where
  copies_base: "getKind M W \<noteq> CopyBlockInst \<Longrightarrow> blockCopyChain M W 0 W"
| copies_step: "getKind M V = CopyBlockInst \<Longrightarrow> getOperand M V 0 = Inr U \<Longrightarrow>
     blockCopyChain M U n W \<Longrightarrow> blockCopyChain M V (Suc n) W"

section \<open>Concrete inputs\<close>

text \<open>An instruction of function 0 with the given kind and load qualifier.\<close>

definition exampleInst :: "SILInstructionKind \<Rightarrow> LoadOwnershipQualifier \<Rightarrow> SILInstruction" where
  "exampleInst k q =
     \<lparr>instKind = k, getFunction = 0, loadOwnershipQualifier = q,
      storeOwnershipQualifier = Store_Unqualified\<rparr>"

text \<open>
  Builders for concrete modules: an instruction node, a block argument, a function
  argument, and a module. The flag \<open>isAddress\<close> is read for block arguments only and
  is left unset by the builders. In such a module the address projections are
  struct_element_addr, tuple_element_addr, unchecked_take_enum_data_addr,
  ref_element_addr, ref_tail_addr and project_box, the value projections are
  struct_extract, tuple_extract and unchecked_enum_data, function values are reference
  counted when thick or block, and no value has a block-storage projection or store
  user unless stated.
\<close>

definition mkNode :: "SILNodeKind \<Rightarrow> SILValue list \<Rightarrow> SILType \<Rightarrow> SILNode" where
  "mkNode k ops t =
     \<lparr>kind = k, operands = ops, ty = t, isAddress = False, parent = 0, index = 0,
      decl = None, referencedGlobal = None, referencedFunction = None,
      intrinsicID = not_intrinsic\<rparr>"

definition mkArg :: "SILBasicBlock \<Rightarrow> nat \<Rightarrow> SILNode" where
  "mkArg bb i = (mkNode SILPHIArgument [] OtherType)\<lparr>parent := bb, index := i\<rparr>"

definition mkFunctionArg :: "SILBasicBlock \<Rightarrow> nat \<Rightarrow> SILType \<Rightarrow> SILNode" where
  "mkFunctionArg bb i t = (mkNode SILFunctionArgument [] t)\<lparr>parent := bb, index := i\<rparr>"

definition mkModule ::
  "(SILValue \<Rightarrow> SILNode) \<Rightarrow> (SILBasicBlock \<Rightarrow> SILBasicBlock list) \<Rightarrow>
   (SILBasicBlock \<Rightarrow> TermInst) \<Rightarrow> SILModule" where
  "mkModule ns ps ts =
     \<lparr>nodes = ns, preds = ps, terminator = ts,
      isAddressProjection = (\<lambda>V. kind (ns V) = StructElementAddrInst
                                \<or> kind (ns V) = TupleElementAddrInst
                                \<or> kind (ns V) = UncheckedTakeEnumDataAddrInst
                                \<or> kind (ns V) = RefElementAddrInst
                                \<or> kind (ns V) = RefTailAddrInst
                                \<or> kind (ns V) = ProjectBoxInst),
      isObjectProjection = (\<lambda>V. kind (ns V) = StructExtractInst
                               \<or> kind (ns V) = TupleExtractInst
                               \<or> kind (ns V) = UncheckedEnumDataInst),
      isReferenceCounted = (\<lambda>T. T = SILFunctionType Thick \<or> T = SILFunctionType Block),
      getSingleUserOfType_ProjectBlockStorageInst = (\<lambda>V. None),
      getSingleUserOfType_StoreInst = (\<lambda>V. None)\<rparr>"

text \<open>
  A control-flow example. \<open>%0\<close> is the result of some instruction. Block 11 has the
  single predecessor block 10, which ends in \<open>br bb11(%0)\<close>; \<open>%2\<close> is argument 0 of
  block 11. Block 12 has the two predecessors 16 and 17; \<open>%3\<close> is its argument 0.
  Block 13 has the single predecessor block 14, which ends in
  \<open>cond_br %0, bb13(%0, %2), bb15(%0)\<close>; \<open>%4\<close> is argument 1 of block 13 and \<open>%5\<close>
  argument 0 of block 15. Block 18 has the single predecessor block 19, which ends in
  another terminator; \<open>%6\<close> is its argument 0.
\<close>

definition cfgModule :: SILModule where
  "cfgModule = mkModule
     (\<lambda>v. if v = 2 then mkArg 11 0
          else if v = 3 then mkArg 12 0
          else if v = 4 then mkArg 13 1
          else if v = 5 then mkArg 15 0
          else if v = 6 then mkArg 18 0
          else mkNode OtherKind [] OtherType)
     (\<lambda>b. if b = 11 then [10] else if b = 12 then [16, 17] else if b = 13 then [14]
          else if b = 15 then [14] else if b = 18 then [19] else [])
     (\<lambda>b. if b = 10 then BranchInst 11 [0]
          else if b = 14 then CondBranchInst 0 13 [0, 2] 15 [0]
          else if b = 16 then BranchInst 12 [0]
          else if b = 17 then BranchInst 12 [0]
          else OtherTermInst)"

text \<open>
  An example with addresses. \<open>%0 = alloc_stack\<close> of a \<open>var\<close>,
  \<open>%2 = struct_element_addr %0\<close>, \<open>%3 = tuple_element_addr %2\<close>,
  \<open>%4 = alloc_stack\<close> of a \<open>var\<close> of type \<open>Builtin.UnsafeValueBuffer\<close>,
  \<open>%5 = alloc_stack\<close> of a \<open>let\<close>, \<open>%6\<close> a function argument,
  \<open>%7 = pointer_to_address %9\<close>, \<open>%8 = index_addr %3, %10\<close>, where \<open>%9\<close> and
  \<open>%10\<close> are results of other instructions; \<open>%12 = alloc_box\<close> of a \<open>let\<close>,
  \<open>%13 = global_addr\<close> of a \<open>let\<close> global, \<open>%14 = global_addr\<close> of a \<open>var\<close>
  global; \<open>%15 = unchecked_take_enum_data_addr %8\<close>,
  \<open>%16 = mark_dependence %15 on %0\<close>, \<open>%17 = tail_addr %16, %10\<close>.
\<close>

definition accessModule :: SILModule where
  "accessModule = mkModule
     (\<lambda>v. if v = 0 then (mkNode AllocStackInst [] OtherType)\<lparr>decl := Some False\<rparr>
          else if v = 2 then mkNode StructElementAddrInst [0] OtherType
          else if v = 3 then mkNode TupleElementAddrInst [2] OtherType
          else if v = 4 then
            (mkNode AllocStackInst [] BuiltinUnsafeValueBufferType)\<lparr>decl := Some False\<rparr>
          else if v = 5 then (mkNode AllocStackInst [] OtherType)\<lparr>decl := Some True\<rparr>
          else if v = 6 then mkFunctionArg 20 0 OtherType
          else if v = 7 then mkNode PointerToAddressInst [9] OtherType
          else if v = 8 then mkNode IndexAddrInst [3, 10] OtherType
          else if v = 12 then (mkNode AllocBoxInst [] OtherType)\<lparr>decl := Some True\<rparr>
          else if v = 13 then
            (mkNode GlobalAddrInst [] OtherType)\<lparr>referencedGlobal := Some True\<rparr>
          else if v = 14 then
            (mkNode GlobalAddrInst [] OtherType)\<lparr>referencedGlobal := Some False\<rparr>
          else if v = 15 then mkNode UncheckedTakeEnumDataAddrInst [8] OtherType
          else if v = 16 then mkNode MarkDependenceInst [15, 0] OtherType
          else if v = 17 then mkNode TailAddrInst [16, 10] OtherType
          else mkNode OtherKind [] OtherType)
     (\<lambda>b. [])
     (\<lambda>b. OtherTermInst)"



text \<open>
  An example with closures. \<open>%0\<close> and \<open>%4\<close> are function references, \<open>%4\<close> to a
  reabstraction thunk; \<open>%2\<close> is a captured value.
  \<open>%3 = partial_apply %0(%2)\<close> and \<open>%5 = partial_apply %4(%3)\<close>.
  \<open>%6 = alloc_stack\<close> is a block storage without any projection;
  \<open>%7 = init_block_storage_header %6\<close>, \<open>%8 = copy_block %7\<close>,
  \<open>%9 = copy_block %8\<close>. \<open>%10\<close> is a function argument of block type and
  \<open>%12 = copy_block %10\<close>. \<open>%13 = alloc_stack\<close> has the projection
  \<open>%14 = project_block_storage %13\<close>, which has no store;
  \<open>%15 = init_block_storage_header %13\<close>. \<open>%16 = alloc_stack\<close> has the projection
  \<open>%17 = project_block_storage %16\<close> with the single store \<open>store %3 to %17\<close>;
  \<open>%18 = init_block_storage_header %16\<close> and \<open>%19 = copy_block %18\<close>.
  \<open>%20 = enum #Optional.some, %12\<close> wraps the block \<open>%12\<close> in an Optional and
  \<open>%21 = begin_borrow %20\<close> borrows it. \<open>%22 = partial_apply %0(%3)\<close> applies an
  ordinary function to the closure \<open>%3\<close>.
\<close>

definition closureModule :: SILModule where
  "closureModule =
     (mkModule
        (\<lambda>v. if v = 0 then mkNode OtherKind [] (SILFunctionType Thin)
             else if v = 3 then
               (mkNode PartialApplyInst [0, 2] (SILFunctionType Thick))
                 \<lparr>referencedFunction := Some IsNotThunk\<rparr>
             else if v = 4 then mkNode OtherKind [] (SILFunctionType Thin)
             else if v = 5 then
               (mkNode PartialApplyInst [4, 3] (SILFunctionType Thick))
                 \<lparr>referencedFunction := Some IsReabstractionThunk\<rparr>
             else if v = 6 then mkNode AllocStackInst [] OtherType
             else if v = 7 then mkNode InitBlockStorageHeaderInst [6, 4] (SILFunctionType Block)
             else if v = 8 then mkNode CopyBlockInst [7] (SILFunctionType Block)
             else if v = 9 then mkNode CopyBlockInst [8] (SILFunctionType Block)
             else if v = 10 then mkFunctionArg 20 0 (SILFunctionType Block)
             else if v = 12 then mkNode CopyBlockInst [10] (SILFunctionType Block)
             else if v = 13 then mkNode AllocStackInst [] OtherType
             else if v = 14 then mkNode ProjectBlockStorageInst [13] OtherType
             else if v = 15 then mkNode InitBlockStorageHeaderInst [13, 4] (SILFunctionType Block)
             else if v = 16 then mkNode AllocStackInst [] OtherType
             else if v = 17 then mkNode ProjectBlockStorageInst [16] OtherType
             else if v = 18 then mkNode InitBlockStorageHeaderInst [16, 4] (SILFunctionType Block)
             else if v = 19 then mkNode CopyBlockInst [18] (SILFunctionType Block)
             else if v = 20 then
               mkNode EnumInst [12] (OptionalType (SILFunctionType Block))
             else if v = 21 then
               mkNode BeginBorrowInst [20] (OptionalType (SILFunctionType Block))
             else if v = 22 then
               (mkNode PartialApplyInst [0, 3] (SILFunctionType Thick))
                 \<lparr>referencedFunction := Some IsNotThunk\<rparr>
             else mkNode OtherKind [] OtherType)
        (\<lambda>b. [])
        (\<lambda>b. OtherTermInst))
     \<lparr>getSingleUserOfType_ProjectBlockStorageInst :=
        (\<lambda>V. if V = 13 then Some 14 else if V = 16 then Some 17 else None),
      getSingleUserOfType_StoreInst :=
        (\<lambda>V. if V = 17 then Some \<lparr>getSrc = 3, getDest = 17\<rparr> else None)\<rparr>"

section \<open>The ownership-dialect evaluator\<close>

lemma evaluate_step:
  assumes "getFunction I = F E"
  shows "\<exists>E'. evaluate E I = Inr (fst (spec_transition (dialectState E) (visit I)), E')
           \<and> dialectState E' = snd (spec_transition (dialectState E) (visit I))
           \<and> F E' = F E
           \<and> (snd (spec_transition (dialectState E) (visit I)) = dialectState E \<longrightarrow> E' = E)"
  using assms
  by (cases "visit I"; cases "hasQualifiedOwnership E"; cases "HasOwnershipQualifiedInstruction E")
     (simp_all add: evaluate_def dialectState_def)

text \<open>
  C4. The evaluator starts in QualifiedNoEvidence. On an instruction of its function,
  \<open>evaluate\<close> answers and moves as the three-state machine of the specification does
  (\<open>spec_transition\<close> on the instruction's dialect), and where the machine keeps its
  state the evaluator's fields are unchanged. From the initial state, two Qualified
  instructions are both accepted and end in QualifiedWithEvidence; Qualified then
  Unqualified rejects the second; two Unqualified instructions are both accepted.
\<close>

theorem evaluate_implements_state_machine:
  "dialectState (initialEvaluator f) = QualifiedNoEvidence
   \<and> (getFunction I = F E \<longrightarrow>
        (\<exists>E'. evaluate E I = Inr (fst (spec_transition (dialectState E) (visit I)), E')
           \<and> dialectState E' = snd (spec_transition (dialectState E) (visit I))
           \<and> (snd (spec_transition (dialectState E) (visit I)) = dialectState E \<longrightarrow> E' = E)))
   \<and> (getFunction I1 = f \<and> getFunction I2 = f \<and> visit I1 = Qualified \<and> visit I2 = Qualified \<longrightarrow>
        (\<exists>E'. evaluateAll (initialEvaluator f) [I1, I2] = Inr ([True, True], E')
           \<and> dialectState E' = QualifiedWithEvidence))
   \<and> (getFunction I1 = f \<and> getFunction I2 = f \<and> visit I1 = Qualified \<and> visit I2 = Unqualified \<longrightarrow>
        (\<exists>E'. evaluateAll (initialEvaluator f) [I1, I2] = Inr ([True, False], E')))
   \<and> (getFunction I1 = f \<and> getFunction I2 = f \<and> visit I1 = Unqualified \<and> visit I2 = Unqualified \<longrightarrow>
        (\<exists>E'. evaluateAll (initialEvaluator f) [I1, I2] = Inr ([True, True], E')))"
proof (intro conjI impI)
  show "dialectState (initialEvaluator f) = QualifiedNoEvidence"
    by (simp add: dialectState_def initialEvaluator_def)
next
  assume "getFunction I = F E"
  from evaluate_step [OF this]
  show "\<exists>E'. evaluate E I = Inr (fst (spec_transition (dialectState E) (visit I)), E')
           \<and> dialectState E' = snd (spec_transition (dialectState E) (visit I))
           \<and> (snd (spec_transition (dialectState E) (visit I)) = dialectState E \<longrightarrow> E' = E)"
    by blast
next
  assume "getFunction I1 = f \<and> getFunction I2 = f \<and> visit I1 = Qualified \<and> visit I2 = Qualified"
  then show "\<exists>E'. evaluateAll (initialEvaluator f) [I1, I2] = Inr ([True, True], E')
           \<and> dialectState E' = QualifiedWithEvidence"
    by (simp add: evaluate_def initialEvaluator_def dialectState_def)
next
  assume "getFunction I1 = f \<and> getFunction I2 = f \<and> visit I1 = Qualified \<and> visit I2 = Unqualified"
  then show "\<exists>E'. evaluateAll (initialEvaluator f) [I1, I2] = Inr ([True, False], E')"
    by (simp add: evaluate_def initialEvaluator_def)
next
  assume "getFunction I1 = f \<and> getFunction I2 = f \<and> visit I1 = Unqualified \<and> visit I2 = Unqualified"
  then show "\<exists>E'. evaluateAll (initialEvaluator f) [I1, I2] = Inr ([True, True], E')"
    by (simp add: evaluate_def initialEvaluator_def)
qed

theorem evaluate_implements_state_machine_witness:
  "getFunction (exampleInst LoadInst Load_Take) = F (initialEvaluator 0)
   \<and> visit (exampleInst LoadInst Load_Take) = Qualified
   \<and> visit (exampleInst CopyValueInst Load_Take) = Qualified
   \<and> visit (exampleInst LoadInst Load_Unqualified) = Unqualified
   \<and> evaluate (initialEvaluator 0) (exampleInst LoadInst Load_Take)
       = Inr (True, (initialEvaluator 0)\<lparr>HasOwnershipQualifiedInstruction := True\<rparr>)
   \<and> (\<exists>E'. evaluateAll (initialEvaluator 0)
              [exampleInst LoadInst Load_Take, exampleInst CopyValueInst Load_Take]
            = Inr ([True, True], E') \<and> dialectState E' = QualifiedWithEvidence)
   \<and> (\<exists>E'. evaluateAll (initialEvaluator 0)
              [exampleInst LoadInst Load_Take, exampleInst LoadInst Load_Unqualified]
            = Inr ([True, False], E'))
   \<and> (\<exists>E'. evaluateAll (initialEvaluator 0)
              [exampleInst LoadInst Load_Unqualified, exampleInst LoadInst Load_Unqualified]
            = Inr ([True, True], E'))"
  using evaluate_implements_state_machine
          [of 0 "exampleInst LoadInst Load_Take" "initialEvaluator 0"
              "exampleInst LoadInst Load_Take" "exampleInst CopyValueInst Load_Take"]
        evaluate_implements_state_machine
          [of 0 "exampleInst LoadInst Load_Take" "initialEvaluator 0"
              "exampleInst LoadInst Load_Take" "exampleInst LoadInst Load_Unqualified"]
        evaluate_implements_state_machine
          [of 0 "exampleInst LoadInst Load_Take" "initialEvaluator 0"
              "exampleInst LoadInst Load_Unqualified" "exampleInst LoadInst Load_Unqualified"]
  by (simp add: exampleInst_def initialEvaluator_def visit_def evaluate_def)

text \<open>
  C10. When \<open>evaluate\<close> rejects an instruction, the evaluator is left as it was: both
  flags keep their values, so every later instruction is answered as if the rejected
  one had not been evaluated.
\<close>

theorem evaluate_rejection_keeps_state:
  "evaluate E I = Inr (False, E') \<Longrightarrow>
     E' = E
     \<and> hasQualifiedOwnership E' = hasQualifiedOwnership E
     \<and> HasOwnershipQualifiedInstruction E' = HasOwnershipQualifiedInstruction E
     \<and> evaluate E' J = evaluate E J"
  by (auto simp: evaluate_def split: if_splits OwnershipQualifiedKind.splits)

theorem evaluate_rejection_keeps_state_witness:
  "evaluate ((initialEvaluator 0)\<lparr>hasQualifiedOwnership := False\<rparr>) (exampleInst LoadInst Load_Take)
     = Inr (False, (initialEvaluator 0)\<lparr>hasQualifiedOwnership := False\<rparr>)
   \<and> evaluate ((initialEvaluator 0)\<lparr>hasQualifiedOwnership := False\<rparr>)
        (exampleInst LoadInst Load_Unqualified)
     = Inr (True, (initialEvaluator 0)\<lparr>hasQualifiedOwnership := False\<rparr>)"
  using evaluate_rejection_keeps_state
     [of "(initialEvaluator 0)\<lparr>hasQualifiedOwnership := False\<rparr>" "exampleInst LoadInst Load_Take"
         "(initialEvaluator 0)\<lparr>hasQualifiedOwnership := False\<rparr>"
         "exampleInst LoadInst Load_Unqualified"]
  by (simp add: exampleInst_def initialEvaluator_def visit_def evaluate_def)

section \<open>Single-predecessor block arguments\<close>

text \<open>
  C8. Let \<open>A\<close> be argument number \<open>index\<close> of a block. If the block has exactly one
  predecessor and that predecessor ends in an unconditional branch,
  \<open>stripSinglePredecessorArgs\<close> continues with the branch operand at that index; if it
  ends in a conditional branch, with the operand that the branch supplies at that index
  on its edge to the block (the true list when the block is the true target, the false
  list when it is the false target). A value that is no block argument is returned as
  it is, so the iteration stops there. If the block has no or several predecessors, or
  the predecessor ends in any other terminator, \<open>A\<close> is returned unchanged.
\<close>

theorem stripSinglePredecessorArgs_resolves:
  "isa_SILArgument M A \<longrightarrow>
     (preds M (parent (nodes M A)) = [Pred] \<and> terminator M Pred = BranchInst D args
        \<and> index (nodes M A) < length args \<longrightarrow>
        stripSinglePredecessorArgs M A
          = stripSinglePredecessorArgs M (args ! index (nodes M A)))
   \<and> (preds M (parent (nodes M A)) = [Pred]
        \<and> terminator M Pred = CondBranchInst C TrueBB trueArgs FalseBB falseArgs
        \<and> parent (nodes M A) = TrueBB \<and> index (nodes M A) < length trueArgs \<longrightarrow>
        stripSinglePredecessorArgs M A
          = stripSinglePredecessorArgs M (trueArgs ! index (nodes M A)))
   \<and> (preds M (parent (nodes M A)) = [Pred]
        \<and> terminator M Pred = CondBranchInst C TrueBB trueArgs FalseBB falseArgs
        \<and> parent (nodes M A) \<noteq> TrueBB \<and> parent (nodes M A) = FalseBB
        \<and> index (nodes M A) < length falseArgs \<longrightarrow>
        stripSinglePredecessorArgs M A
          = stripSinglePredecessorArgs M (falseArgs ! index (nodes M A)))
   \<and> (\<not> isa_SILArgument M X \<longrightarrow> stripSinglePredecessorArgs M X = Some (Inr X))
   \<and> (length (preds M (parent (nodes M A))) \<noteq> 1 \<longrightarrow>
        stripSinglePredecessorArgs M A = Some (Inr A))
   \<and> (preds M (parent (nodes M A)) = [Pred]
        \<and> (terminator M Pred = SwitchEnumInst E \<or> terminator M Pred = OtherTermInst) \<longrightarrow>
        stripSinglePredecessorArgs M A = Some (Inr A))"
proof (intro impI conjI)
  assume arg: "isa_SILArgument M A"
  {
    assume "preds M (parent (nodes M A)) = [Pred] \<and> terminator M Pred = BranchInst D args
        \<and> index (nodes M A) < length args"
    with arg show "stripSinglePredecessorArgs M A
          = stripSinglePredecessorArgs M (args ! index (nodes M A))"
      by (subst stripSinglePredecessorArgs.simps) (simp add: getArg_def)
  }
  {
    assume "preds M (parent (nodes M A)) = [Pred]
        \<and> terminator M Pred = CondBranchInst C TrueBB trueArgs FalseBB falseArgs
        \<and> parent (nodes M A) = TrueBB \<and> index (nodes M A) < length trueArgs"
    with arg show "stripSinglePredecessorArgs M A
          = stripSinglePredecessorArgs M (trueArgs ! index (nodes M A))"
      by (subst stripSinglePredecessorArgs.simps) auto
  }
  {
    assume "preds M (parent (nodes M A)) = [Pred]
        \<and> terminator M Pred = CondBranchInst C TrueBB trueArgs FalseBB falseArgs
        \<and> parent (nodes M A) \<noteq> TrueBB \<and> parent (nodes M A) = FalseBB
        \<and> index (nodes M A) < length falseArgs"
    with arg show "stripSinglePredecessorArgs M A
          = stripSinglePredecessorArgs M (falseArgs ! index (nodes M A))"
      by (subst stripSinglePredecessorArgs.simps) auto
  }
  {
    assume "\<not> isa_SILArgument M X"
    then show "stripSinglePredecessorArgs M X = Some (Inr X)"
      by (subst stripSinglePredecessorArgs.simps) simp
  }
  {
    assume "length (preds M (parent (nodes M A))) \<noteq> 1"
    then show "stripSinglePredecessorArgs M A = Some (Inr A)"
      by (subst stripSinglePredecessorArgs.simps) (auto split: list.splits)
  }
  {
    assume "preds M (parent (nodes M A)) = [Pred]
        \<and> (terminator M Pred = SwitchEnumInst E \<or> terminator M Pred = OtherTermInst)"
    then show "stripSinglePredecessorArgs M A = Some (Inr A)"
      by (subst stripSinglePredecessorArgs.simps) auto
  }
qed

lemma cfgModule_simps:
  "nodes cfgModule 0 = mkNode OtherKind [] OtherType"
  "nodes cfgModule 2 = mkArg 11 0"
  "nodes cfgModule 3 = mkArg 12 0"
  "nodes cfgModule 4 = mkArg 13 1"
  "nodes cfgModule 5 = mkArg 15 0"
  "nodes cfgModule 6 = mkArg 18 0"
  "preds cfgModule 11 = [10]"
  "preds cfgModule 12 = [16, 17]"
  "preds cfgModule 13 = [14]"
  "preds cfgModule 15 = [14]"
  "preds cfgModule 18 = [19]"
  "terminator cfgModule 10 = BranchInst 11 [0]"
  "terminator cfgModule 14 = CondBranchInst 0 13 [0, 2] 15 [0]"
  "terminator cfgModule 19 = OtherTermInst"
  by (simp_all add: cfgModule_def mkModule_def)

lemma mkNode_simps:
  "kind (mkNode k ops t) = k"
  "operands (mkNode k ops t) = ops"
  "ty (mkNode k ops t) = t"
  "isAddress (mkNode k ops t) = False"
  "decl (mkNode k ops t) = None"
  "referencedGlobal (mkNode k ops t) = None"
  "referencedFunction (mkNode k ops t) = None"
  "intrinsicID (mkNode k ops t) = not_intrinsic"
  "kind (mkArg bb i) = SILPHIArgument"
  "operands (mkArg bb i) = []"
  "parent (mkArg bb i) = bb"
  "index (mkArg bb i) = i"
  "isAddress (mkArg bb i) = False"
  "kind (mkFunctionArg bb i t) = SILFunctionArgument"
  "operands (mkFunctionArg bb i t) = []"
  "ty (mkFunctionArg bb i t) = t"
  "parent (mkFunctionArg bb i t) = bb"
  "index (mkFunctionArg bb i t) = i"
  "decl (mkFunctionArg bb i t) = None"
  "referencedGlobal (mkFunctionArg bb i t) = None"
  by (simp_all add: mkNode_def mkArg_def mkFunctionArg_def)

theorem stripSinglePredecessorArgs_resolves_witness:
  "stripSinglePredecessorArgs cfgModule 2 = Some (Inr 0)
   \<and> stripSinglePredecessorArgs cfgModule 4 = Some (Inr 0)
   \<and> stripSinglePredecessorArgs cfgModule 5 = Some (Inr 0)
   \<and> stripSinglePredecessorArgs cfgModule 3 = Some (Inr 3)
   \<and> stripSinglePredecessorArgs cfgModule 6 = Some (Inr 6)"
  using stripSinglePredecessorArgs_resolves
          [of cfgModule 2 10 11 "[0]" 0 13 "[0, 2]" 15 "[0]" 0 0]
        stripSinglePredecessorArgs_resolves
          [of cfgModule 4 14 11 "[0]" 0 13 "[0, 2]" 15 "[0]" 0 0]
        stripSinglePredecessorArgs_resolves
          [of cfgModule 5 14 11 "[0]" 0 13 "[0, 2]" 15 "[0]" 0 0]
        stripSinglePredecessorArgs_resolves
          [of cfgModule 3 14 11 "[0]" 0 13 "[0, 2]" 15 "[0]" 0 0]
        stripSinglePredecessorArgs_resolves
          [of cfgModule 6 19 11 "[0]" 0 13 "[0, 2]" 15 "[0]" 0 0]
  by (simp add: cfgModule_simps mkNode_simps isa_SILArgument_def getKind_def)

section \<open>Formal access roots\<close>

lemma findAccessedAddressBase_base:
  assumes "getKind M base = AllocStackInst \<or> getKind M base = AllocBoxInst
       \<or> getKind M base = GlobalAddrInst \<or> getKind M base = RefElementAddrInst
       \<or> getKind M base = BeginAccessInst \<or> getKind M base = SILFunctionArgument
       \<or> getKind M base = PointerToAddressInst"
  shows "findAccessedAddressBase M base = Some (Inr (Some base))"
  using assms by (subst findAccessedAddressBase.simps) (elim disjE; simp)

lemma findAccessedAddressBase_link:
  assumes "getKind M P = StructElementAddrInst \<or> getKind M P = TupleElementAddrInst
       \<or> getKind M P = UncheckedTakeEnumDataAddrInst \<or> getKind M P = IndexAddrInst
       \<or> getKind M P = RefTailAddrInst \<or> getKind M P = TailAddrInst
       \<or> getKind M P = MarkUninitializedInst \<or> getKind M P = OpenExistentialAddrInst
       \<or> getKind M P = UncheckedAddrCastInst \<or> getKind M P = CopyValueInst
       \<or> getKind M P = MarkDependenceInst \<or> getKind M P = ProjectBoxInst
       \<or> getKind M P = ProjectBlockStorageInst \<or> getKind M P = BeginBorrowInst"
    and "getOperand M P 0 = Inr A"
  shows "findAccessedAddressBase M P = findAccessedAddressBase M A"
  using assms(1) by (subst findAccessedAddressBase.simps) (elim disjE; simp add: assms(2))

text \<open>
  C1. Let \<open>base\<close> be a base allocation: an alloc_stack, or an alloc_box, global_addr,
  ref_element_addr, begin_access, function argument or pointer_to_address. If \<open>P\<close> is
  reached from \<open>base\<close> through a chain of any length \<open>n\<close> of subobject projections
  and indexing instructions (struct_element_addr, tuple_element_addr,
  unchecked_take_enum_data_addr, index_addr, and also ref_tail_addr, tail_addr and the
  value-preserving wrappers), each having the previous address as its operand 0, then
  \<open>findAccessedAddressBase P\<close> returns \<open>base\<close>.
\<close>

theorem findAccessedAddressBase_projection_chain:
  assumes chain: "projectionChain M base n P"
    and base: "getKind M base = AllocStackInst \<or> getKind M base = AllocBoxInst
       \<or> getKind M base = GlobalAddrInst \<or> getKind M base = RefElementAddrInst
       \<or> getKind M base = BeginAccessInst \<or> getKind M base = SILFunctionArgument
       \<or> getKind M base = PointerToAddressInst"
  shows "findAccessedAddressBase M P = Some (Inr (Some base))"
  using chain
proof (induction rule: projectionChain.induct)
  case chain_base
  show ?case by (rule findAccessedAddressBase_base [OF base])
next
  case (chain_step n A P)
  from findAccessedAddressBase_link [OF chain_step(2,3)] chain_step(4)
  show ?case by simp
qed

lemma accessModule_simps:
  "nodes accessModule 0 = (mkNode AllocStackInst [] OtherType)\<lparr>decl := Some False\<rparr>"
  "nodes accessModule 2 = mkNode StructElementAddrInst [0] OtherType"
  "nodes accessModule 3 = mkNode TupleElementAddrInst [2] OtherType"
  "nodes accessModule 4
     = (mkNode AllocStackInst [] BuiltinUnsafeValueBufferType)\<lparr>decl := Some False\<rparr>"
  "nodes accessModule 5 = (mkNode AllocStackInst [] OtherType)\<lparr>decl := Some True\<rparr>"
  "nodes accessModule 6 = mkFunctionArg 20 0 OtherType"
  "nodes accessModule 7 = mkNode PointerToAddressInst [9] OtherType"
  "nodes accessModule 8 = mkNode IndexAddrInst [3, 10] OtherType"
  "nodes accessModule 12 = (mkNode AllocBoxInst [] OtherType)\<lparr>decl := Some True\<rparr>"
  "nodes accessModule 13
     = (mkNode GlobalAddrInst [] OtherType)\<lparr>referencedGlobal := Some True\<rparr>"
  "nodes accessModule 14
     = (mkNode GlobalAddrInst [] OtherType)\<lparr>referencedGlobal := Some False\<rparr>"
  "nodes accessModule 15 = mkNode UncheckedTakeEnumDataAddrInst [8] OtherType"
  "nodes accessModule 16 = mkNode MarkDependenceInst [15, 0] OtherType"
  "nodes accessModule 17 = mkNode TailAddrInst [16, 10] OtherType"
  by (simp_all add: accessModule_def mkModule_def)

lemma accessModule_chain: "projectionChain accessModule 0 6 17"
proof -
  have c0: "projectionChain accessModule 0 0 0" by (rule chain_base)
  have c1: "projectionChain accessModule 0 (Suc 0) 2"
    by (rule chain_step [OF c0])
       (simp_all add: accessModule_simps mkNode_simps getKind_def getOperand_def getArg_def)
  have c2: "projectionChain accessModule 0 (Suc (Suc 0)) 3"
    by (rule chain_step [OF c1])
       (simp_all add: accessModule_simps mkNode_simps getKind_def getOperand_def getArg_def)
  have c3: "projectionChain accessModule 0 (Suc (Suc (Suc 0))) 8"
    by (rule chain_step [OF c2])
       (simp_all add: accessModule_simps mkNode_simps getKind_def getOperand_def getArg_def)
  have c4: "projectionChain accessModule 0 (Suc (Suc (Suc (Suc 0)))) 15"
    by (rule chain_step [OF c3])
       (simp_all add: accessModule_simps mkNode_simps getKind_def getOperand_def getArg_def)
  have c5: "projectionChain accessModule 0 (Suc (Suc (Suc (Suc (Suc 0))))) 16"
    by (rule chain_step [OF c4])
       (simp_all add: accessModule_simps mkNode_simps getKind_def getOperand_def getArg_def)
  have c6: "projectionChain accessModule 0 (Suc (Suc (Suc (Suc (Suc (Suc 0)))))) 17"
    by (rule chain_step [OF c5])
       (simp_all add: accessModule_simps mkNode_simps getKind_def getOperand_def getArg_def)
  have "Suc (Suc (Suc (Suc (Suc (Suc 0))))) = (6::nat)" by simp
  with c6 show ?thesis by (simp only:)
qed

theorem findAccessedAddressBase_projection_chain_witness:
  "projectionChain accessModule 0 6 17
   \<and> getKind accessModule 0 = AllocStackInst
   \<and> getKind accessModule 2 = StructElementAddrInst
   \<and> getKind accessModule 3 = TupleElementAddrInst
   \<and> getKind accessModule 8 = IndexAddrInst
   \<and> getKind accessModule 15 = UncheckedTakeEnumDataAddrInst
   \<and> findAccessedAddressBase accessModule 17 = Some (Inr (Some 0))"
  using accessModule_chain
        findAccessedAddressBase_projection_chain [OF accessModule_chain]
  by (simp add: accessModule_simps mkNode_simps getKind_def)

section \<open>Possible formal access bases\<close>

text \<open>
  C2, as stated, fails: \<open>%4\<close> of the address example is a stack allocation of a
  \<open>var\<close>, so it is no function argument, no pointer_to_address and not immutable, and
  \<open>isPossibleFormalAccessBase\<close> is false for it, because its type is
  \<open>Builtin.UnsafeValueBuffer\<close>.
\<close>

theorem isPossibleFormalAccessBase_counterexample:
  "getKind accessModule 4 = AllocStackInst
   \<and> decl (nodes accessModule 4) = Some False
   \<and> \<not> isLetAccess accessModule 4
   \<and> \<not> isPossibleFormalAccessBase accessModule 4"
  by (simp add: accessModule_simps mkNode_simps getKind_def getType_def isLetAccess_def
        isPossibleFormalAccessBase_def)

text \<open>
  C2, amended. \<open>isPossibleFormalAccessBase\<close> is false for exactly four classes of
  base: a function argument, a pointer_to_address, a base that \<open>isLetAccess\<close> marks
  immutable (an alloc_stack or alloc_box whose declaration is a \<open>let\<close>, or a
  global_addr whose global is a \<open>let\<close>), and a base of type
  \<open>Builtin.UnsafeValueBuffer\<close>. A stack allocation that is not let-bound and not of
  that type is a possible base.
\<close>

theorem isPossibleFormalAccessBase_classes:
  "(\<not> isPossibleFormalAccessBase M V \<longleftrightarrow>
      getKind M V = SILFunctionArgument \<or> getKind M V = PointerToAddressInst
      \<or> isLetAccess M V \<or> getType M V = BuiltinUnsafeValueBufferType)
   \<and> (isLetAccess M V \<longleftrightarrow>
        (getKind M V = AllocStackInst \<or> getKind M V = AllocBoxInst)
          \<and> decl (nodes M V) = Some True
        \<or> getKind M V = GlobalAddrInst \<and> referencedGlobal (nodes M V) = Some True)
   \<and> (getKind M V = AllocStackInst \<and> decl (nodes M V) \<noteq> Some True
        \<and> getType M V \<noteq> BuiltinUnsafeValueBufferType \<longrightarrow> isPossibleFormalAccessBase M V)"
  by (auto simp: isPossibleFormalAccessBase_def isLetAccess_def split: option.splits)

theorem isPossibleFormalAccessBase_classes_witness:
  "getKind accessModule 0 = AllocStackInst \<and> decl (nodes accessModule 0) \<noteq> Some True
   \<and> getType accessModule 0 \<noteq> BuiltinUnsafeValueBufferType
   \<and> isPossibleFormalAccessBase accessModule 0
   \<and> isPossibleFormalAccessBase accessModule 14
   \<and> \<not> isPossibleFormalAccessBase accessModule 4
   \<and> \<not> isPossibleFormalAccessBase accessModule 5
   \<and> \<not> isPossibleFormalAccessBase accessModule 6
   \<and> \<not> isPossibleFormalAccessBase accessModule 7
   \<and> \<not> isPossibleFormalAccessBase accessModule 12
   \<and> \<not> isPossibleFormalAccessBase accessModule 13"
  using isPossibleFormalAccessBase_classes [of accessModule 0]
        isPossibleFormalAccessBase_classes [of accessModule 14]
        isPossibleFormalAccessBase_classes [of accessModule 4]
        isPossibleFormalAccessBase_classes [of accessModule 5]
        isPossibleFormalAccessBase_classes [of accessModule 6]
        isPossibleFormalAccessBase_classes [of accessModule 7]
        isPossibleFormalAccessBase_classes [of accessModule 12]
        isPossibleFormalAccessBase_classes [of accessModule 13]
  by (auto simp: accessModule_simps mkNode_simps getKind_def getType_def)

section \<open>Every step of a strip function follows an edge of the value graph\<close>

lemma operand_edge:
  "getOperand M V i = Inr W \<Longrightarrow> (W, V) \<in> valueEdges M"
  by (auto simp: getOperand_def getArg_def valueEdges_def split: if_splits)

lemma incoming_edge:
  "incomingValue M V = Some W \<Longrightarrow> (W, V) \<in> valueEdges M"
  by (simp add: valueEdges_def)


lemma stripSinglePredecessorArgs_result_aux:
  "stripSinglePredecessorArgs M V = Some r \<Longrightarrow>
     (\<forall>W. r = Inr W \<longrightarrow>
        (W, V) \<in> (valueEdges M)\<^sup>* \<and> stripSinglePredecessorArgs M W = Some (Inr W))"
proof (induct rule: stripSinglePredecessorArgs.raw_induct [rotated 1, consumes 1, case_names step])
  case (step f M V r)
  show ?case
  proof (cases "incomingValue M V")
    case None
    with step(2) have "r = Inr V \<or> (\<exists>e. r = Inl e)"
      by (auto simp: incomingValue_def getArg_def
               split: option.splits list.splits TermInst.splits if_splits)
    moreover have "r = Inr V \<Longrightarrow> stripSinglePredecessorArgs M V = Some (Inr V)"
      using step(2) None
      by (subst stripSinglePredecessorArgs.simps)
         (auto simp: incomingValue_def getArg_def
               split: option.splits list.splits TermInst.splits if_splits)
    ultimately show ?thesis by auto
  next
    case (Some A)
    with step(2) have "f M A = Some r"
      by (auto simp: incomingValue_def getArg_def
               split: option.splits list.splits TermInst.splits if_splits)
    from step(1) [OF this] incoming_edge [OF Some] show ?thesis
      by (auto intro: rtrancl_into_rtrancl)
  qed
qed

lemma stripSinglePredecessorArgs_reach:
  "stripSinglePredecessorArgs M V = Some (Inr W) \<Longrightarrow> (W, V) \<in> (valueEdges M)\<^sup>*"
  using stripSinglePredecessorArgs_result_aux by blast

lemma stripSinglePredecessorArgs_idem:
  "stripSinglePredecessorArgs M V = Some (Inr W) \<Longrightarrow>
     stripSinglePredecessorArgs M W = Some (Inr W)"
  using stripSinglePredecessorArgs_result_aux by blast


lemma stripCastsWithoutMarkDependence_result_aux:
  "stripCastsWithoutMarkDependence M V = Some r \<Longrightarrow>
     (\<forall>W. r = Inr W \<longrightarrow>
        (W, V) \<in> (valueEdges M)\<^sup>* \<and> stripCastsWithoutMarkDependence M W = Some (Inr W)
        \<and> \<not> (isRCIdentityPreservingCast (getKind M W) \<or> getKind M W = UncheckedTrivialBitCastInst))"
proof (induct rule: stripCastsWithoutMarkDependence.raw_induct [rotated 1, consumes 1, case_names step])
  case (step f M V0 r)
  show ?case
  proof (intro allI impI)
    fix W assume r: "r = Inr W"
    from step(2) r obtain V where spa: "stripSinglePredecessorArgs M V0 = Some (Inr V)"
      by (auto split: option.splits sum.splits)
    note reachV = stripSinglePredecessorArgs_reach [OF spa]
    note idemV = stripSinglePredecessorArgs_idem [OF spa]
    show "(W, V0) \<in> (valueEdges M)\<^sup>* \<and> stripCastsWithoutMarkDependence M W = Some (Inr W)
        \<and> \<not> (isRCIdentityPreservingCast (getKind M W) \<or> getKind M W = UncheckedTrivialBitCastInst)"
    proof (cases "isRCIdentityPreservingCast (getKind M V) \<or> getKind M V = UncheckedTrivialBitCastInst")
      case False
      with step(2) spa r have "W = V" by (auto split: if_splits)
      moreover from False idemV have "stripCastsWithoutMarkDependence M V = Some (Inr V)"
        by (subst stripCastsWithoutMarkDependence.simps) auto
      ultimately show ?thesis using reachV False by simp
    next
      case True
      with step(2) spa r obtain A where op: "getOperand M V 0 = Inr A" and rec: "f M A = Some r"
        by (auto split: sum.splits)
      from step(1) [OF rec] r
      have "(W, A) \<in> (valueEdges M)\<^sup>*" and "stripCastsWithoutMarkDependence M W = Some (Inr W)"
        and "\<not> (isRCIdentityPreservingCast (getKind M W) \<or> getKind M W = UncheckedTrivialBitCastInst)" by auto
      with operand_edge [OF op] reachV show ?thesis
        by (meson rtrancl.rtrancl_into_rtrancl rtrancl_trans)
    qed
  qed
qed



lemma stripCastsWithoutMarkDependence_exit:
  "stripCastsWithoutMarkDependence M V = Some (Inr W) \<Longrightarrow> \<not> (isRCIdentityPreservingCast (getKind M W) \<or> getKind M W = UncheckedTrivialBitCastInst)"
  using stripCastsWithoutMarkDependence_result_aux by blast


lemma stripCasts_result_aux:
  "stripCasts M V = Some r \<Longrightarrow>
     (\<forall>W. r = Inr W \<longrightarrow>
        (W, V) \<in> (valueEdges M)\<^sup>* \<and> stripCasts M W = Some (Inr W)
        \<and> \<not> (isRCIdentityPreservingCast (getKind M W) \<or> getKind M W = UncheckedTrivialBitCastInst \<or> getKind M W = MarkDependenceInst))"
proof (induct rule: stripCasts.raw_induct [rotated 1, consumes 1, case_names step])
  case (step f M V0 r)
  show ?case
  proof (intro allI impI)
    fix W assume r: "r = Inr W"
    from step(2) r obtain V where spa: "stripSinglePredecessorArgs M V0 = Some (Inr V)"
      by (auto split: option.splits sum.splits)
    note reachV = stripSinglePredecessorArgs_reach [OF spa]
    note idemV = stripSinglePredecessorArgs_idem [OF spa]
    show "(W, V0) \<in> (valueEdges M)\<^sup>* \<and> stripCasts M W = Some (Inr W)
        \<and> \<not> (isRCIdentityPreservingCast (getKind M W) \<or> getKind M W = UncheckedTrivialBitCastInst \<or> getKind M W = MarkDependenceInst)"
    proof (cases "isRCIdentityPreservingCast (getKind M V) \<or> getKind M V = UncheckedTrivialBitCastInst \<or> getKind M V = MarkDependenceInst")
      case False
      with step(2) spa r have "W = V" by (auto split: if_splits)
      moreover from False idemV have "stripCasts M V = Some (Inr V)"
        by (subst stripCasts.simps) auto
      ultimately show ?thesis using reachV False by simp
    next
      case True
      with step(2) spa r obtain A where op: "getOperand M V 0 = Inr A" and rec: "f M A = Some r"
        by (auto split: sum.splits)
      from step(1) [OF rec] r
      have "(W, A) \<in> (valueEdges M)\<^sup>*" and "stripCasts M W = Some (Inr W)"
        and "\<not> (isRCIdentityPreservingCast (getKind M W) \<or> getKind M W = UncheckedTrivialBitCastInst \<or> getKind M W = MarkDependenceInst)" by auto
      with operand_edge [OF op] reachV show ?thesis
        by (meson rtrancl.rtrancl_into_rtrancl rtrancl_trans)
    qed
  qed
qed



lemma stripCasts_exit:
  "stripCasts M V = Some (Inr W) \<Longrightarrow> \<not> (isRCIdentityPreservingCast (getKind M W) \<or> getKind M W = UncheckedTrivialBitCastInst \<or> getKind M W = MarkDependenceInst)"
  using stripCasts_result_aux by blast







lemma stripUnaryAddressProjections_result_aux:
  "stripUnaryAddressProjections M V = Some r \<Longrightarrow>
     (\<forall>W. r = Inr W \<longrightarrow>
        (W, V) \<in> (valueEdges M)\<^sup>* \<and> stripUnaryAddressProjections M W = Some (Inr W)
        \<and> \<not> (isAddressProjection M W \<and> \<not> 1 < length (operands (nodes M W))))"
proof (induct rule: stripUnaryAddressProjections.raw_induct [rotated 1, consumes 1, case_names step])
  case (step f M V0 r)
  show ?case
  proof (intro allI impI)
    fix W assume r: "r = Inr W"
    from step(2) r obtain V where spa: "stripSinglePredecessorArgs M V0 = Some (Inr V)"
      by (auto split: option.splits sum.splits)
    note reachV = stripSinglePredecessorArgs_reach [OF spa]
    note idemV = stripSinglePredecessorArgs_idem [OF spa]
    show "(W, V0) \<in> (valueEdges M)\<^sup>* \<and> stripUnaryAddressProjections M W = Some (Inr W)
        \<and> \<not> (isAddressProjection M W \<and> \<not> 1 < length (operands (nodes M W)))"
    proof (cases "isAddressProjection M V \<and> \<not> 1 < length (operands (nodes M V))")
      case False
      with step(2) spa r have "W = V" by (auto split: if_splits)
      moreover from False idemV have "stripUnaryAddressProjections M V = Some (Inr V)"
        by (subst stripUnaryAddressProjections.simps) (auto split: if_splits)
      ultimately show ?thesis using reachV False by simp
    next
      case True
      with step(2) spa r obtain A where op: "getOperand M V 0 = Inr A" and rec: "f M A = Some r"
        by (auto split: sum.splits)
      from step(1) [OF rec] r
      have "(W, A) \<in> (valueEdges M)\<^sup>*" and "stripUnaryAddressProjections M W = Some (Inr W)"
        and "\<not> (isAddressProjection M W \<and> \<not> 1 < length (operands (nodes M W)))" by auto
      with operand_edge [OF op] reachV show ?thesis
        by (meson rtrancl.rtrancl_into_rtrancl rtrancl_trans)
    qed
  qed
qed

lemma stripUnaryAddressProjections_reach:
  "stripUnaryAddressProjections M V = Some (Inr W) \<Longrightarrow> (W, V) \<in> (valueEdges M)\<^sup>*"
  using stripUnaryAddressProjections_result_aux by blast


lemma stripUnaryAddressProjections_exit:
  "stripUnaryAddressProjections M V = Some (Inr W) \<Longrightarrow> \<not> (isAddressProjection M W \<and> \<not> 1 < length (operands (nodes M W)))"
  using stripUnaryAddressProjections_result_aux by blast


lemma stripValueProjections_result_aux:
  "stripValueProjections M V = Some r \<Longrightarrow>
     (\<forall>W. r = Inr W \<longrightarrow>
        (W, V) \<in> (valueEdges M)\<^sup>* \<and> stripValueProjections M W = Some (Inr W)
        \<and> \<not> (isObjectProjection M W))"
proof (induct rule: stripValueProjections.raw_induct [rotated 1, consumes 1, case_names step])
  case (step f M V0 r)
  show ?case
  proof (intro allI impI)
    fix W assume r: "r = Inr W"
    from step(2) r obtain V where spa: "stripSinglePredecessorArgs M V0 = Some (Inr V)"
      by (auto split: option.splits sum.splits)
    note reachV = stripSinglePredecessorArgs_reach [OF spa]
    note idemV = stripSinglePredecessorArgs_idem [OF spa]
    show "(W, V0) \<in> (valueEdges M)\<^sup>* \<and> stripValueProjections M W = Some (Inr W)
        \<and> \<not> (isObjectProjection M W)"
    proof (cases "isObjectProjection M V")
      case False
      with step(2) spa r have "W = V" by (auto split: if_splits)
      moreover from False idemV have "stripValueProjections M V = Some (Inr V)"
        by (subst stripValueProjections.simps) auto
      ultimately show ?thesis using reachV False by simp
    next
      case True
      with step(2) spa r obtain A where op: "getOperand M V 0 = Inr A" and rec: "f M A = Some r"
        by (auto split: sum.splits)
      from step(1) [OF rec] r
      have "(W, A) \<in> (valueEdges M)\<^sup>*" and "stripValueProjections M W = Some (Inr W)"
        and "\<not> (isObjectProjection M W)" by auto
      with operand_edge [OF op] reachV show ?thesis
        by (meson rtrancl.rtrancl_into_rtrancl rtrancl_trans)
    qed
  qed
qed

lemma stripValueProjections_reach:
  "stripValueProjections M V = Some (Inr W) \<Longrightarrow> (W, V) \<in> (valueEdges M)\<^sup>*"
  using stripValueProjections_result_aux by blast


lemma stripValueProjections_exit:
  "stripValueProjections M V = Some (Inr W) \<Longrightarrow> \<not> (isObjectProjection M W)"
  using stripValueProjections_result_aux by blast


lemma stripClassCasts_result_aux:
  "stripClassCasts M V = Some r \<Longrightarrow>
     (\<forall>W. r = Inr W \<longrightarrow>
        (W, V) \<in> (valueEdges M)\<^sup>* \<and> stripClassCasts M W = Some (Inr W)
        \<and> \<not> (getKind M W = UpcastInst \<or> getKind M W = UnconditionalCheckedCastInst))"
proof (induct rule: stripClassCasts.raw_induct [rotated 1, consumes 1, case_names step])
  case (step f M V r)
  show ?case
  proof (intro allI impI)
    fix W assume r: "r = Inr W"
    show "(W, V) \<in> (valueEdges M)\<^sup>* \<and> stripClassCasts M W = Some (Inr W)
        \<and> \<not> (getKind M W = UpcastInst \<or> getKind M W = UnconditionalCheckedCastInst)"
    proof (cases "getKind M V = UpcastInst \<or> getKind M V = UnconditionalCheckedCastInst")
      case False
      with step(2) r have "W = V" by auto
      moreover from False have "stripClassCasts M V = Some (Inr V)"
        by (subst stripClassCasts.simps) auto
      ultimately show ?thesis using False by simp
    next
      case True
      with step(2) r obtain A where op: "getOperand M V 0 = Inr A" and rec: "f M A = Some r"
        by (auto split: sum.splits if_splits)
      from step(1) [OF rec] r
      have "(W, A) \<in> (valueEdges M)\<^sup>*" and "stripClassCasts M W = Some (Inr W)"
        and "\<not> (getKind M W = UpcastInst \<or> getKind M W = UnconditionalCheckedCastInst)" by auto
      with operand_edge [OF op] show ?thesis
        by (meson rtrancl.rtrancl_into_rtrancl)
    qed
  qed
qed

lemma stripClassCasts_reach:
  "stripClassCasts M V = Some (Inr W) \<Longrightarrow> (W, V) \<in> (valueEdges M)\<^sup>*"
  using stripClassCasts_result_aux by blast


lemma stripClassCasts_exit:
  "stripClassCasts M V = Some (Inr W) \<Longrightarrow> \<not> (getKind M W = UpcastInst \<or> getKind M W = UnconditionalCheckedCastInst)"
  using stripClassCasts_result_aux by blast







lemma stripConvertFunctions_result_aux:
  "stripConvertFunctions M V = Some r \<Longrightarrow>
     (\<forall>W. r = Inr W \<longrightarrow>
        (W, V) \<in> (valueEdges M)\<^sup>* \<and> stripConvertFunctions M W = Some (Inr W)
        \<and> \<not> (getKind M W = ConvertFunctionInst))"
proof (induct rule: stripConvertFunctions.raw_induct [rotated 1, consumes 1, case_names step])
  case (step f M V r)
  show ?case
  proof (intro allI impI)
    fix W assume r: "r = Inr W"
    show "(W, V) \<in> (valueEdges M)\<^sup>* \<and> stripConvertFunctions M W = Some (Inr W)
        \<and> \<not> (getKind M W = ConvertFunctionInst)"
    proof (cases "getKind M V = ConvertFunctionInst")
      case False
      with step(2) r have "W = V" by auto
      moreover from False have "stripConvertFunctions M V = Some (Inr V)"
        by (subst stripConvertFunctions.simps) auto
      ultimately show ?thesis using False by simp
    next
      case True
      with step(2) r obtain A where op: "getOperand M V 0 = Inr A" and rec: "f M A = Some r"
        by (auto split: sum.splits if_splits)
      from step(1) [OF rec] r
      have "(W, A) \<in> (valueEdges M)\<^sup>*" and "stripConvertFunctions M W = Some (Inr W)"
        and "\<not> (getKind M W = ConvertFunctionInst)" by auto
      with operand_edge [OF op] show ?thesis
        by (meson rtrancl.rtrancl_into_rtrancl)
    qed
  qed
qed

lemma stripConvertFunctions_reach:
  "stripConvertFunctions M V = Some (Inr W) \<Longrightarrow> (W, V) \<in> (valueEdges M)\<^sup>*"
  using stripConvertFunctions_result_aux by blast


lemma stripConvertFunctions_exit:
  "stripConvertFunctions M V = Some (Inr W) \<Longrightarrow> \<not> (getKind M W = ConvertFunctionInst)"
  using stripConvertFunctions_result_aux by blast


lemma lookThroughBlockCopies_result_aux:
  "lookThroughBlockCopies M V = Some r \<Longrightarrow>
     (\<forall>W. r = Inr W \<longrightarrow>
        (W, V) \<in> (valueEdges M)\<^sup>* \<and> lookThroughBlockCopies M W = Some (Inr W)
        \<and> \<not> (getKind M W = CopyBlockInst))"
proof (induct rule: lookThroughBlockCopies.raw_induct [rotated 1, consumes 1, case_names step])
  case (step f M V r)
  show ?case
  proof (intro allI impI)
    fix W assume r: "r = Inr W"
    show "(W, V) \<in> (valueEdges M)\<^sup>* \<and> lookThroughBlockCopies M W = Some (Inr W)
        \<and> \<not> (getKind M W = CopyBlockInst)"
    proof (cases "getKind M V = CopyBlockInst")
      case False
      with step(2) r have "W = V" by auto
      moreover from False have "lookThroughBlockCopies M V = Some (Inr V)"
        by (subst lookThroughBlockCopies.simps) auto
      ultimately show ?thesis using False by simp
    next
      case True
      with step(2) r obtain A where op: "getOperand M V 0 = Inr A" and rec: "f M A = Some r"
        by (auto split: sum.splits if_splits)
      from step(1) [OF rec] r
      have "(W, A) \<in> (valueEdges M)\<^sup>*" and "lookThroughBlockCopies M W = Some (Inr W)"
        and "\<not> (getKind M W = CopyBlockInst)" by auto
      with operand_edge [OF op] show ?thesis
        by (meson rtrancl.rtrancl_into_rtrancl)
    qed
  qed
qed

lemma lookThroughBlockCopies_reach:
  "lookThroughBlockCopies M V = Some (Inr W) \<Longrightarrow> (W, V) \<in> (valueEdges M)\<^sup>*"
  using lookThroughBlockCopies_result_aux by blast

lemma lookThroughBlockCopies_idem:
  "lookThroughBlockCopies M V = Some (Inr W) \<Longrightarrow> lookThroughBlockCopies M W = Some (Inr W)"
  using lookThroughBlockCopies_result_aux by blast

lemma lookThroughBlockCopies_exit:
  "lookThroughBlockCopies M V = Some (Inr W) \<Longrightarrow> \<not> (getKind M W = CopyBlockInst)"
  using lookThroughBlockCopies_result_aux by blast

lemma lookThroughBlockCopies_terminates:
  assumes "wf (valueEdges M)"
  shows "\<exists>r. lookThroughBlockCopies M V = Some r"
  using assms
proof (induct V rule: wf_induct_rule)
  case (less V)
  show ?case
  proof (cases "getOperand M V 0")
    case (Inl e)
    then show ?thesis by (subst lookThroughBlockCopies.simps) simp
  next
    case (Inr A)
    from less [OF operand_edge [OF Inr]] Inr show ?thesis
      by (subst lookThroughBlockCopies.simps) simp
  qed
qed















section \<open>The number of inductive steps is bounded by the depth\<close>
























section \<open>Termination on finite acyclic value graphs\<close>























section \<open>The result of getUnderlyingObject\<close>




section \<open>Idempotence of the strip functions\<close>




section \<open>Closure origin\<close>

lemma stripConvertFunctions_other:
  "getKind M V \<noteq> ConvertFunctionInst \<Longrightarrow> stripConvertFunctions M V = Some (Inr V)"
  by (subst stripConvertFunctions.simps) simp

lemma isPartialApplyOfReabstractionThunk_Some:
  assumes "getArguments M t = [a]"
    and "referencedFunction (nodes M t) = Some IsReabstractionThunk"
    and "getAs_SILFunctionType (getType M a) \<noteq> None"
    and "isReferenceCounted M (getType M a)"
  shows "isPartialApplyOfReabstractionThunk M t = Some a"
  using assms by (simp add: isPartialApplyOfReabstractionThunk_def)

lemma isPartialApplyOfReabstractionThunk_None:
  assumes "referencedFunction (nodes M c) \<noteq> Some IsReabstractionThunk
       \<or> length (getArguments M c) \<noteq> 1
       \<or> (\<exists>x. getArguments M c = [x]
              \<and> (getAs_SILFunctionType (getType M x) = None
                   \<or> \<not> isReferenceCounted M (getType M x)))"
  shows "isPartialApplyOfReabstractionThunk M c = None"
  using assms
  by (auto simp: isPartialApplyOfReabstractionThunk_def split: list.splits option.splits)

lemma findClosureForAppliedArg_direct:
  assumes "getKind M c = PartialApplyInst" and "getType M c = SILFunctionType R"
    and "R \<noteq> Block"
    and "referencedFunction (nodes M c) \<noteq> Some IsReabstractionThunk
       \<or> length (getArguments M c) \<noteq> 1
       \<or> (\<exists>x. getArguments M c = [x]
              \<and> (getAs_SILFunctionType (getType M x) = None
                   \<or> \<not> isReferenceCounted M (getType M x)))"
  shows "findClosureForAppliedArg M c = Some (Inr (Some c, False))"
  using assms(1-3) isPartialApplyOfReabstractionThunk_None [OF assms(4)]
  by (subst findClosureForAppliedArg.simps) (simp add: stripConvertFunctions_other)

lemma findClosureForAppliedArg_thunk:
  assumes "getKind M t = PartialApplyInst" and "getType M t = SILFunctionType R"
    and "R \<noteq> Block" and "getArguments M t = [a]"
    and "referencedFunction (nodes M t) = Some IsReabstractionThunk"
    and "getAs_SILFunctionType (getType M a) \<noteq> None"
    and "isReferenceCounted M (getType M a)"
  shows "findClosureForAppliedArg M t =
           (case findClosureForAppliedArg M a of
              None \<Rightarrow> None
            | Some (Inl e) \<Rightarrow> Some (Inl e)
            | Some (Inr result) \<Rightarrow> Some (Inr (fst result, True)))"
  using assms(1-3) isPartialApplyOfReabstractionThunk_Some [OF assms(4-7)]
  by (subst findClosureForAppliedArg.simps)
     (simp add: stripConvertFunctions_other split: option.splits sum.splits)

text \<open>
  C5. Let \<open>c\<close> be a partial_apply (its type a function type, not a block) that is not
  the application of a reabstraction thunk to a closure: its callee is not flagged as a
  reabstraction thunk, or it does not have exactly one argument, or that argument is not
  a reference-counted value of function type. Then \<open>c\<close> resolves to \<open>(c, False)\<close>.
  Let \<open>t\<close> be a partial_apply whose callee is flagged as a reabstraction thunk and
  whose sole argument \<open>a\<close> is a reference-counted value of function type. Then \<open>t\<close>
  resolves to what \<open>a\<close> resolves to, with the flag forced to true; so when \<open>a\<close> is
  such a closure \<open>c\<close>, the result is \<open>(c, True)\<close>.
\<close>

theorem findClosureForAppliedArg_partial_apply:
  "(getKind M c = PartialApplyInst \<and> getType M c = SILFunctionType R \<and> R \<noteq> Block
      \<and> (referencedFunction (nodes M c) \<noteq> Some IsReabstractionThunk
           \<or> length (getArguments M c) \<noteq> 1
           \<or> (\<exists>x. getArguments M c = [x]
                  \<and> (getAs_SILFunctionType (getType M x) = None
                       \<or> \<not> isReferenceCounted M (getType M x)))) \<longrightarrow>
      findClosureForAppliedArg M c = Some (Inr (Some c, False)))
   \<and> (getKind M t = PartialApplyInst \<and> getType M t = SILFunctionType R' \<and> R' \<noteq> Block
      \<and> getArguments M t = [a]
      \<and> referencedFunction (nodes M t) = Some IsReabstractionThunk
      \<and> getAs_SILFunctionType (getType M a) \<noteq> None
      \<and> isReferenceCounted M (getType M a) \<longrightarrow>
      findClosureForAppliedArg M t =
        (case findClosureForAppliedArg M a of
           None \<Rightarrow> None
         | Some (Inl e) \<Rightarrow> Some (Inl e)
         | Some (Inr result) \<Rightarrow> Some (Inr (fst result, True)))
      \<and> (a = c \<and> getKind M c = PartialApplyInst \<and> getType M c = SILFunctionType R
           \<and> R \<noteq> Block
           \<and> (referencedFunction (nodes M c) \<noteq> Some IsReabstractionThunk
                \<or> length (getArguments M c) \<noteq> 1
                \<or> (\<exists>x. getArguments M c = [x]
                       \<and> (getAs_SILFunctionType (getType M x) = None
                            \<or> \<not> isReferenceCounted M (getType M x)))) \<longrightarrow>
           findClosureForAppliedArg M t = Some (Inr (Some c, True))))"
proof (intro conjI impI)
  assume "getKind M c = PartialApplyInst \<and> getType M c = SILFunctionType R \<and> R \<noteq> Block
      \<and> (referencedFunction (nodes M c) \<noteq> Some IsReabstractionThunk
           \<or> length (getArguments M c) \<noteq> 1
           \<or> (\<exists>x. getArguments M c = [x]
                  \<and> (getAs_SILFunctionType (getType M x) = None
                       \<or> \<not> isReferenceCounted M (getType M x))))"
  then show "findClosureForAppliedArg M c = Some (Inr (Some c, False))"
    using findClosureForAppliedArg_direct [of M c R] by blast
next
  assume t: "getKind M t = PartialApplyInst \<and> getType M t = SILFunctionType R' \<and> R' \<noteq> Block
      \<and> getArguments M t = [a]
      \<and> referencedFunction (nodes M t) = Some IsReabstractionThunk
      \<and> getAs_SILFunctionType (getType M a) \<noteq> None
      \<and> isReferenceCounted M (getType M a)"
  then show eq: "findClosureForAppliedArg M t =
        (case findClosureForAppliedArg M a of
           None \<Rightarrow> None
         | Some (Inl e) \<Rightarrow> Some (Inl e)
         | Some (Inr result) \<Rightarrow> Some (Inr (fst result, True)))"
    using findClosureForAppliedArg_thunk [of M t R' a] by blast
  assume c: "a = c \<and> getKind M c = PartialApplyInst \<and> getType M c = SILFunctionType R
           \<and> R \<noteq> Block
           \<and> (referencedFunction (nodes M c) \<noteq> Some IsReabstractionThunk
                \<or> length (getArguments M c) \<noteq> 1
                \<or> (\<exists>x. getArguments M c = [x]
                       \<and> (getAs_SILFunctionType (getType M x) = None
                            \<or> \<not> isReferenceCounted M (getType M x))))"
  then have "findClosureForAppliedArg M c = Some (Inr (Some c, False))"
    using findClosureForAppliedArg_direct [of M c R] by blast
  with eq c show "findClosureForAppliedArg M t = Some (Inr (Some c, True))" by simp
qed

lemma closureModule_simps:
  "nodes closureModule 0 = mkNode OtherKind [] (SILFunctionType Thin)"
  "nodes closureModule 2 = mkNode OtherKind [] OtherType"
  "nodes closureModule 3 = (mkNode PartialApplyInst [0, 2] (SILFunctionType Thick))
                 \<lparr>referencedFunction := Some IsNotThunk\<rparr>"
  "nodes closureModule 4 = mkNode OtherKind [] (SILFunctionType Thin)"
  "nodes closureModule 5 = (mkNode PartialApplyInst [4, 3] (SILFunctionType Thick))
                 \<lparr>referencedFunction := Some IsReabstractionThunk\<rparr>"
  "nodes closureModule 6 = mkNode AllocStackInst [] OtherType"
  "nodes closureModule 7 = mkNode InitBlockStorageHeaderInst [6, 4] (SILFunctionType Block)"
  "nodes closureModule 8 = mkNode CopyBlockInst [7] (SILFunctionType Block)"
  "nodes closureModule 9 = mkNode CopyBlockInst [8] (SILFunctionType Block)"
  "nodes closureModule 10 = mkFunctionArg 20 0 (SILFunctionType Block)"
  "nodes closureModule 12 = mkNode CopyBlockInst [10] (SILFunctionType Block)"
  "nodes closureModule 13 = mkNode AllocStackInst [] OtherType"
  "nodes closureModule 14 = mkNode ProjectBlockStorageInst [13] OtherType"
  "nodes closureModule 15 = mkNode InitBlockStorageHeaderInst [13, 4] (SILFunctionType Block)"
  "nodes closureModule 16 = mkNode AllocStackInst [] OtherType"
  "nodes closureModule 17 = mkNode ProjectBlockStorageInst [16] OtherType"
  "nodes closureModule 18 = mkNode InitBlockStorageHeaderInst [16, 4] (SILFunctionType Block)"
  "nodes closureModule 19 = mkNode CopyBlockInst [18] (SILFunctionType Block)"
  "nodes closureModule 20 = mkNode EnumInst [12] (OptionalType (SILFunctionType Block))"
  "nodes closureModule 21
     = mkNode BeginBorrowInst [20] (OptionalType (SILFunctionType Block))"
  "nodes closureModule 22 = (mkNode PartialApplyInst [0, 3] (SILFunctionType Thick))
                 \<lparr>referencedFunction := Some IsNotThunk\<rparr>"
  "isReferenceCounted closureModule T
     \<longleftrightarrow> T = SILFunctionType Thick \<or> T = SILFunctionType Block"
  "getSingleUserOfType_ProjectBlockStorageInst closureModule V
     = (if V = 13 then Some 14 else if V = 16 then Some 17 else None)"
  "getSingleUserOfType_StoreInst closureModule V
     = (if V = 17 then Some \<lparr>getSrc = 3, getDest = 17\<rparr> else None)"
  by (simp_all add: closureModule_def mkModule_def)

theorem findClosureForAppliedArg_partial_apply_witness:
  "getKind closureModule 3 = PartialApplyInst
   \<and> getType closureModule 3 = SILFunctionType Thick
   \<and> referencedFunction (nodes closureModule 3) \<noteq> Some IsReabstractionThunk
   \<and> getKind closureModule 5 = PartialApplyInst
   \<and> getArguments closureModule 5 = [3]
   \<and> referencedFunction (nodes closureModule 5) = Some IsReabstractionThunk
   \<and> isReferenceCounted closureModule (getType closureModule 3)
   \<and> findClosureForAppliedArg closureModule 3 = Some (Inr (Some 3, False))
   \<and> findClosureForAppliedArg closureModule 5 = Some (Inr (Some 3, True))
   \<and> getArguments closureModule 22 = [3]
   \<and> findClosureForAppliedArg closureModule 22 = Some (Inr (Some 22, False))"
  using findClosureForAppliedArg_partial_apply [of closureModule 3 Thick 5 Thick 3]
        findClosureForAppliedArg_partial_apply [of closureModule 22 Thick 5 Thick 3]
  by (simp add: closureModule_simps mkNode_simps getKind_def getType_def getArguments_def)

section \<open>Closures stored into blocks\<close>

lemma lookThroughBlockCopies_chain:
  "blockCopyChain M V n W \<Longrightarrow> lookThroughBlockCopies M V = Some (Inr W)"
proof (induction rule: blockCopyChain.induct)
  case (copies_base W)
  then show ?case by (subst lookThroughBlockCopies.simps) simp
next
  case (copies_step V U n W)
  then show ?case by (subst lookThroughBlockCopies.simps) simp
qed

text \<open>
  C6, as stated, fails: \<open>%9\<close> of the closure example is a block (two copy_block
  instructions over an init_block_storage_header) whose storage \<open>%6\<close> has no
  project_block_storage user, so the pattern is not found; the call does not return the
  "none" result but stops at the failed assertion.
\<close>

theorem findClosureForAppliedArg_block_counterexample:
  "getType closureModule 9 = SILFunctionType Block
   \<and> blockCopyChain closureModule 9 (Suc (Suc 0)) 7
   \<and> getKind closureModule 7 = InitBlockStorageHeaderInst
   \<and> getOperand closureModule 7 0 = Inr 6
   \<and> getSingleUserOfType_ProjectBlockStorageInst closureModule 6 = None
   \<and> findClosureForAppliedArg closureModule 9 = Some (Inl AssertionFailure)"
proof -
  have chain: "blockCopyChain closureModule 9 (Suc (Suc 0)) 7"
    by (intro copies_step [where U = 8] copies_step [where U = 7] copies_base)
       (simp_all add: closureModule_simps mkNode_simps getKind_def getOperand_def getArg_def)
  have "findClosureStoredIntoBlock closureModule 9 = Some (Inl AssertionFailure)"
    by (simp add: findClosureStoredIntoBlock_def lookThroughBlockCopies_chain [OF chain]
          closureModule_simps mkNode_simps getKind_def getType_def getOperand_def getArg_def)
  then have "findClosureForAppliedArg closureModule 9 = Some (Inl AssertionFailure)"
    by (subst findClosureForAppliedArg.simps)
       (simp add: closureModule_simps mkNode_simps getKind_def getType_def)
  with chain show ?thesis
    by (simp add: closureModule_simps mkNode_simps getKind_def getType_def getOperand_def
          getArg_def)
qed

lemma getOptionalObjectType_None_iff:
  "getOptionalObjectType T = None \<longleftrightarrow> (\<forall>T'. T \<noteq> OptionalType T')"
  by (cases T) simp_all

lemma findClosureForAppliedArg_looks_through:
  assumes "getKind M V0 \<noteq> BeginBorrowInst \<and> V1 = V0
       \<or> getKind M V0 = BeginBorrowInst \<and> getOperand M V0 0 = Inr V1"
    and "(\<forall>T. getType M V1 \<noteq> OptionalType T) \<and> V2 = V1
       \<or> (\<exists>T. getType M V1 = OptionalType T) \<and> getKind M V1 = EnumInst
          \<and> getOperand M V1 0 = Inr V2"
    and "getType M V2 = SILFunctionType Block"
  shows "findClosureStoredIntoBlock M V2 = Some (Inl e) \<Longrightarrow>
           findClosureForAppliedArg M V0 = Some (Inl e)"
    and "findClosureStoredIntoBlock M V2 = Some (Inr None) \<Longrightarrow>
           findClosureForAppliedArg M V0 = Some (Inr (None, False))"
proof -
  from assms(1)
  have b: "(if getKind M V0 = BeginBorrowInst then getOperand M V0 0 else Inr V0) = Inr V1"
    by auto
  from assms(2)
  have o: "(if getOptionalObjectType (getType M V1) \<noteq> None
            then (if getKind M V1 \<noteq> EnumInst then Inl AssertionFailure
                  else getOperand M V1 0)
            else Inr V1) = Inr V2"
    by (auto simp: getOptionalObjectType_None_iff)
  show "findClosureStoredIntoBlock M V2 = Some (Inl e) \<Longrightarrow>
          findClosureForAppliedArg M V0 = Some (Inl e)"
    by (subst findClosureForAppliedArg.simps) (simp only: b sum.case o, simp add: assms(3))
  show "findClosureStoredIntoBlock M V2 = Some (Inr None) \<Longrightarrow>
          findClosureForAppliedArg M V0 = Some (Inr (None, False))"
    by (subst findClosureForAppliedArg.simps) (simp only: b sum.case o, simp add: assms(3))
qed

text \<open>
  C6, amended. Let \<open>V0\<close> be the value passed. The function looks through a
  begin_borrow, if \<open>V0\<close> is one, getting \<open>V1\<close>, and then through the enum instruction
  of an Optional, if the type of \<open>V1\<close> is an Optional, getting \<open>V2\<close>. Let \<open>V2\<close> have
  block function type and be \<open>W\<close> behind any number \<open>n\<close> of copy_block wrappers. If
  \<open>W\<close> is not an init_block_storage_header, \<open>findClosureForAppliedArg V0\<close> returns
  the "none" result \<open>(None, False)\<close>. If \<open>W\<close> is an init_block_storage_header but
  its block storage has no single project_block_storage user, or that projection has no
  single store user, the call stops at a failed assertion; it does not return "none".
\<close>

theorem findClosureForAppliedArg_block_pattern:
  assumes borrow: "getKind M V0 \<noteq> BeginBorrowInst \<and> V1 = V0
       \<or> getKind M V0 = BeginBorrowInst \<and> getOperand M V0 0 = Inr V1"
    and optional: "(\<forall>T. getType M V1 \<noteq> OptionalType T) \<and> V2 = V1
       \<or> (\<exists>T. getType M V1 = OptionalType T) \<and> getKind M V1 = EnumInst
          \<and> getOperand M V1 0 = Inr V2"
    and block: "getType M V2 = SILFunctionType Block"
    and chain: "blockCopyChain M V2 n W"
  shows "(getKind M W \<noteq> InitBlockStorageHeaderInst \<longrightarrow>
            findClosureForAppliedArg M V0 = Some (Inr (None, False)))
       \<and> (getKind M W = InitBlockStorageHeaderInst \<and> getOperand M W 0 = Inr BlockStorage
            \<and> getSingleUserOfType_ProjectBlockStorageInst M BlockStorage = None \<longrightarrow>
            findClosureForAppliedArg M V0 = Some (Inl AssertionFailure))
       \<and> (getKind M W = InitBlockStorageHeaderInst \<and> getOperand M W 0 = Inr BlockStorage
            \<and> getSingleUserOfType_ProjectBlockStorageInst M BlockStorage = Some PBSI
            \<and> getSingleUserOfType_StoreInst M PBSI = None \<longrightarrow>
            findClosureForAppliedArg M V0 = Some (Inl AssertionFailure))"
proof -
  note loop = lookThroughBlockCopies_chain [OF chain]
  note through = findClosureForAppliedArg_looks_through [OF borrow optional block]
  show ?thesis
  proof (intro conjI impI)
    assume "getKind M W \<noteq> InitBlockStorageHeaderInst"
    with loop block have "findClosureStoredIntoBlock M V2 = Some (Inr None)"
      by (simp add: findClosureStoredIntoBlock_def)
    then show "findClosureForAppliedArg M V0 = Some (Inr (None, False))"
      by (rule through(2))
  next
    assume "getKind M W = InitBlockStorageHeaderInst \<and> getOperand M W 0 = Inr BlockStorage
            \<and> getSingleUserOfType_ProjectBlockStorageInst M BlockStorage = None"
    with loop block have "findClosureStoredIntoBlock M V2 = Some (Inl AssertionFailure)"
      by (simp add: findClosureStoredIntoBlock_def)
    then show "findClosureForAppliedArg M V0 = Some (Inl AssertionFailure)"
      by (rule through(1))
  next
    assume "getKind M W = InitBlockStorageHeaderInst \<and> getOperand M W 0 = Inr BlockStorage
            \<and> getSingleUserOfType_ProjectBlockStorageInst M BlockStorage = Some PBSI
            \<and> getSingleUserOfType_StoreInst M PBSI = None"
    with loop block have "findClosureStoredIntoBlock M V2 = Some (Inl AssertionFailure)"
      by (simp add: findClosureStoredIntoBlock_def)
    then show "findClosureForAppliedArg M V0 = Some (Inl AssertionFailure)"
      by (rule through(1))
  qed
qed

lemma closureModule_chain_12: "blockCopyChain closureModule 12 (Suc 0) 10"
  by (intro copies_step [where U = 10] copies_base)
     (simp_all add: closureModule_simps mkNode_simps getKind_def getOperand_def getArg_def)

lemma closureModule_chain_15: "blockCopyChain closureModule 15 0 15"
  by (intro copies_base) (simp add: closureModule_simps mkNode_simps getKind_def)

lemma closureModule_unwrap_21:
  "getKind closureModule 21 = BeginBorrowInst \<and> getOperand closureModule 21 0 = Inr 20"
  "(\<exists>T. getType closureModule 20 = OptionalType T) \<and> getKind closureModule 20 = EnumInst
     \<and> getOperand closureModule 20 0 = Inr 12"
  "getType closureModule 12 = SILFunctionType Block"
  by (simp_all add: closureModule_simps mkNode_simps getKind_def getType_def getOperand_def
        getArg_def)

lemma closureModule_unwrap_15:
  "getKind closureModule 15 \<noteq> BeginBorrowInst \<and> (15::nat) = 15"
  "(\<forall>T. getType closureModule 15 \<noteq> OptionalType T) \<and> (15::nat) = 15"
  "getType closureModule 15 = SILFunctionType Block"
  by (simp_all add: closureModule_simps mkNode_simps getKind_def getType_def)

theorem findClosureForAppliedArg_block_pattern_witness:
  "getKind closureModule 21 = BeginBorrowInst \<and> getOperand closureModule 21 0 = Inr 20
   \<and> getType closureModule 20 = OptionalType (SILFunctionType Block)
   \<and> getKind closureModule 20 = EnumInst \<and> getOperand closureModule 20 0 = Inr 12
   \<and> getType closureModule 12 = SILFunctionType Block
   \<and> blockCopyChain closureModule 12 (Suc 0) 10
   \<and> getKind closureModule 10 \<noteq> InitBlockStorageHeaderInst
   \<and> findClosureForAppliedArg closureModule 21 = Some (Inr (None, False))
   \<and> blockCopyChain closureModule 15 0 15
   \<and> getKind closureModule 15 = InitBlockStorageHeaderInst
   \<and> getOperand closureModule 15 0 = Inr 13
   \<and> getSingleUserOfType_ProjectBlockStorageInst closureModule 13 = Some 14
   \<and> getSingleUserOfType_StoreInst closureModule 14 = None
   \<and> findClosureForAppliedArg closureModule 15 = Some (Inl AssertionFailure)"
  using findClosureForAppliedArg_block_pattern
          [OF disjI2 [OF closureModule_unwrap_21(1)] disjI2 [OF closureModule_unwrap_21(2)]
              closureModule_unwrap_21(3) closureModule_chain_12, of 13 14]
        findClosureForAppliedArg_block_pattern
          [OF disjI1 [OF closureModule_unwrap_15(1)] disjI1 [OF closureModule_unwrap_15(2)]
              closureModule_unwrap_15(3) closureModule_chain_15, of 13 14]
        closureModule_chain_12 closureModule_chain_15
  by (simp add: closureModule_simps mkNode_simps getKind_def getType_def getOperand_def
        getArg_def)

end
